theory Spec2Isabelle
  imports Complex_Main "HOL-Library.Word"
begin

section \<open>JavaScript values\<close>

text \<open>
  A JavaScript string is a sequence of 16-bit code units. Literals of the program are
  written with \<open>lit\<close>, which maps each character of an Isabelle string to its code unit.
\<close>

type_synonym jschar = "16 word"
type_synonym jsstring = "jschar list"

definition lit :: "string \<Rightarrow> jsstring" where
  "lit s = map of_char s"

text \<open>Decimal rendering of a non-negative integer, as a template literal prints it.\<close>

definition digit :: "nat \<Rightarrow> jschar" where
  "digit d = of_nat (48 + d)"

fun show_nat :: "nat \<Rightarrow> jsstring" where
  "show_nat n = (if n < 10 then [digit n] else show_nat (n div 10) @ [digit (n mod 10)])"

declare show_nat.simps [simp del]

text \<open>
  The values the program handles: what \<open>JSON.parse\<close> and the vector store return, and
  \<open>undefined\<close>, which an out-of-range read produces. An object is its list of own
  properties; a lookup takes the first entry of a key.
\<close>

datatype jsval =
    JUndef
  | JNull
  | JBool bool
  | JNum real
  | JStr jsstring
  | JArr "jsval list"
  | JObj "(jsstring \<times> jsval) list"

text \<open>
  What the program can throw. \<open>Error msg\<close> is \<open>new Error(msg)\<close> built by the program
  itself; \<open>TypeError\<close> is a property read on \<open>undefined\<close> or \<open>null\<close>, a call of
  something that is not a function, or the conversion to a string of an object that has
  none; \<open>RangeError\<close> is a call with more arguments than the engine accepts;
  \<open>SyntaxError\<close> is a response body that is not JSON;
  \<open>External msg\<close> is a rejection coming from the file system, the network or the
  vector store.
\<close>

datatype js_error =
    Error jsstring
  | TypeError
  | RangeError
  | SyntaxError
  | External jsstring

fun is_array :: "jsval \<Rightarrow> bool" where
  "is_array (JArr xs) = True"
| "is_array v = False"

text \<open>\<open>v[i]\<close> for a numeric index \<open>i\<close>.\<close>

fun jidx :: "jsval \<Rightarrow> nat \<Rightarrow> js_error + jsval" where
  "jidx JUndef i = Inl TypeError"
| "jidx JNull i = Inl TypeError"
| "jidx (JBool b) i = Inr JUndef"
| "jidx (JNum x) i = Inr JUndef"
| "jidx (JStr s) i = Inr (if i < length s then JStr [s ! i] else JUndef)"
| "jidx (JArr xs) i = Inr (if i < length xs then xs ! i else JUndef)"
| "jidx (JObj kvs) i = Inr (case map_of kvs (show_nat i) of None \<Rightarrow> JUndef | Some v \<Rightarrow> v)"

text \<open>
  \<open>v.name\<close> for the data properties the program reads (\<open>embeddings\<close>, \<open>metadatas\<close>,
  \<open>documents\<close>, \<open>distances\<close>, \<open>file\<close>, \<open>lineNumber\<close>): none of them is a built-in member
  of an array, a string, a number or a boolean.
\<close>

fun jprop :: "jsval \<Rightarrow> jsstring \<Rightarrow> js_error + jsval" where
  "jprop JUndef k = Inl TypeError"
| "jprop JNull k = Inl TypeError"
| "jprop (JObj kvs) k = Inr (case map_of kvs k of None \<Rightarrow> JUndef | Some v \<Rightarrow> v)"
| "jprop v k = Inr JUndef"

text \<open>\<open>v?.length\<close>: \<open>undefined\<close> on \<open>undefined\<close> and \<open>null\<close>, the length of an array or string.\<close>

fun opt_length :: "jsval \<Rightarrow> jsval" where
  "opt_length (JArr xs) = JNum (real (length xs))"
| "opt_length (JStr s) = JNum (real (length s))"
| "opt_length (JObj kvs) = (case map_of kvs (lit ''length'') of None \<Rightarrow> JUndef | Some v \<Rightarrow> v)"
| "opt_length v = JUndef"

text \<open>\<open>xs[i]\<close> on an array the program built itself.\<close>

definition arr_at :: "jsval list \<Rightarrow> nat \<Rightarrow> jsval" where
  "arr_at xs i = (if i < length xs then xs ! i else JUndef)"

text \<open>Sequencing of computations that may throw.\<close>

definition bindE :: "js_error + 'a \<Rightarrow> ('a \<Rightarrow> js_error + 'b) \<Rightarrow> js_error + 'b" where
  "bindE m f = (case m of Inl e \<Rightarrow> Inl e | Inr x \<Rightarrow> f x)"


fun mapE :: "('a \<Rightarrow> js_error + 'b) \<Rightarrow> 'a list \<Rightarrow> js_error + 'b list" where
  "mapE f [] = Inr []"
| "mapE f (x # xs) = bindE (f x) (\<lambda>y. bindE (mapE f xs) (\<lambda>ys. Inr (y # ys)))"

section \<open>String operations\<close>

text \<open>\<open>s.endsWith(suf)\<close>.\<close>

definition endsWith :: "jsstring \<Rightarrow> jsstring \<Rightarrow> bool" where
  "endsWith s suf = (length suf \<le> length s \<and> drop (length s - length suf) s = suf)"

text \<open>\<open>s.split('\n')\<close>: the pieces between line feeds; an empty string gives one empty piece.\<close>

fun split_nl :: "jsstring \<Rightarrow> jsstring list" where
  "split_nl [] = [[]]"
| "split_nl (c # cs) =
     (if c = 10 then [] # split_nl cs
      else (case split_nl cs of [] \<Rightarrow> [[c]] | l # ls \<Rightarrow> (c # l) # ls))"

text \<open>
  The code units \<open>trim\<close> removes: ECMAScript's WhiteSpace (tab, vertical tab, form feed,
  space, no-break space, the byte order mark and the space separators of Unicode) and
  LineTerminator (line feed, carriage return, line and paragraph separator).
\<close>

definition is_ws :: "jschar \<Rightarrow> bool" where
  "is_ws c = (c = 9 \<or> c = 10 \<or> c = 11 \<or> c = 12 \<or> c = 13 \<or> c = 32 \<or> c = 160
     \<or> c = 0x1680 \<or> (0x2000 \<le> c \<and> c \<le> 0x200A) \<or> c = 0x2028 \<or> c = 0x2029
     \<or> c = 0x202F \<or> c = 0x205F \<or> c = 0x3000 \<or> c = 0xFEFF)"

definition trim :: "jsstring \<Rightarrow> jsstring" where
  "trim s = rev (dropWhile is_ws (rev (dropWhile is_ws s)))"

text \<open>\<open>`${xs}`\<close> for an array of strings: the elements joined by commas.\<close>

fun join_comma :: "jsstring list \<Rightarrow> jsstring" where
  "join_comma [] = []"
| "join_comma [x] = x"
| "join_comma (x # y # ys) = x @ lit '','' @ join_comma (y # ys)"

section \<open>The outside world\<close>

text \<open>The request \<open>fetch\<close> sends; the body is the value given to \<open>JSON.stringify\<close>.\<close>

record request =
  req_url :: jsstring
  req_method :: jsstring
  req_headers :: "(jsstring \<times> jsstring) list"
  req_body :: jsval

text \<open>
  What \<open>fetch\<close> gives: a rejection, or a response with its \<open>ok\<close> flag, its \<open>status\<close> and
  the value \<open>response.json()\<close> resolves to (\<open>None\<close> when the body is not JSON).
\<close>

datatype fetch_result =
    FetchRejected jsstring
  | Response bool nat "jsval option"

datatype collection = Collection jsstring

record add_args =
  ids :: "jsstring list"
  embeddings :: "jsval list"
  metadatas :: "jsval list"
  documents :: "jsstring list"

text \<open>One argument of a \<open>console.log\<close> call.\<close>

datatype out_item =
    OText jsstring
  | ONat nat
  | OVal jsval
  | OResult jsval jsval jsval real

text \<open>
  The state the program changes: the requests sent to the embedding endpoint, the calls of
  the collection's \<open>add\<close>, and the two output streams, each in order.
\<close>

record world =
  requests :: "request list"
  add_calls :: "(collection \<times> add_args) list"
  stdout :: "out_item list list"
  stderr :: "(jsstring \<times> js_error) list"

text \<open>
  The services the program calls, as functions of their arguments. The embedding endpoint
  answers depending on the requests it has received before, the vector store depending on
  the \<open>add\<close> calls made before. A rejection carries its message. \<open>max_arguments\<close> is
  the largest number of arguments the engine accepts in one call: a call spread from a
  longer array throws a \<open>RangeError\<close>.
\<close>

record env =
  readdir :: "jsstring \<Rightarrow> jsstring + jsstring list"
  path_join :: "jsstring \<Rightarrow> jsstring \<Rightarrow> jsstring"
  readFile :: "jsstring \<Rightarrow> jsstring + jsstring"
  fetch :: "request list \<Rightarrow> request \<Rightarrow> fetch_result"
  getOrCreateCollection :: "jsstring \<Rightarrow> jsstring + collection"
  collection_add :: "(collection \<times> add_args) list \<Rightarrow> collection \<Rightarrow> add_args \<Rightarrow> jsstring option"
  getCollection :: "(collection \<times> add_args) list \<Rightarrow> jsstring \<Rightarrow> jsstring + collection"
  collection_query ::
    "(collection \<times> add_args) list \<Rightarrow> collection \<Rightarrow> jsval list \<Rightarrow> nat \<Rightarrow> jsstring + jsval"
  max_arguments :: nat

definition console_log :: "out_item list \<Rightarrow> world \<Rightarrow> world" where
  "console_log items w = w\<lparr>stdout := stdout w @ [items]\<rparr>"

definition console_error :: "jsstring \<Rightarrow> js_error \<Rightarrow> world \<Rightarrow> world" where
  "console_error label e w = w\<lparr>stderr := stderr w @ [(label, e)]\<rparr>"

section \<open>Configuration constants\<close>

definition CODE_DIR :: jsstring where
  "CODE_DIR = lit ''./code_files''"

definition COLLECTION_NAME :: jsstring where
  "COLLECTION_NAME = lit ''code_vectors''"

definition MAX_RESULTS :: nat where
  "MAX_RESULTS = 5"

section \<open>readCodeFiles\<close>

record line_record =
  content :: jsstring
  "file" :: jsstring
  lineNumber :: nat

definition accepted :: "jsstring \<Rightarrow> bool" where
  "accepted f = (endsWith f (lit ''.js'') \<or> endsWith f (lit ''.py'') \<or> endsWith f (lit ''.txt''))"

text \<open>\<open>content.split('\n').map((line, index) => ...)\<close>: one record per piece of the split.\<close>

definition numbered_lines :: "jsstring \<Rightarrow> jsstring \<Rightarrow> line_record list" where
  "numbered_lines f text =
     map (\<lambda>(index, line). \<lparr>content = trim line, file = f, lineNumber = index + 1\<rparr>)
       (enumerate 0 (split_nl text))"

text \<open>\<open>lines.filter(line => line.content)\<close>: a string is truthy when it is not empty.\<close>

definition file_records :: "jsstring \<Rightarrow> jsstring \<Rightarrow> line_record list" where
  "file_records f text = filter (\<lambda>line. content line \<noteq> []) (numbered_lines f text)"

text \<open>
  The loop over the directory's entries; \<open>codeData\<close> is the accumulator.
  \<open>codeData.push(...records)\<close> is a call with one argument per record.
\<close>

fun read_loop :: "env \<Rightarrow> jsstring \<Rightarrow> jsstring list \<Rightarrow> line_record list \<Rightarrow> js_error + line_record list" where
  "read_loop en directory [] codeData = Inr codeData"
| "read_loop en directory (f # fs) codeData =
     (if accepted f then
        (case readFile en (path_join en directory f) of
           Inl m \<Rightarrow> Inl (External m)
         | Inr text \<Rightarrow>
             if length (file_records f text) > max_arguments en then Inl RangeError
             else read_loop en directory fs (codeData @ file_records f text))
      else read_loop en directory fs codeData)"

text \<open>The body of the \<open>try\<close> block.\<close>

definition read_try :: "env \<Rightarrow> jsstring \<Rightarrow> js_error + line_record list" where
  "read_try en directory =
     (case readdir en directory of
        Inl m \<Rightarrow> Inl (External m)
      | Inr files \<Rightarrow> read_loop en directory files [])"

definition readCodeFiles :: "env \<Rightarrow> jsstring \<Rightarrow> world \<Rightarrow> line_record list \<times> world" where
  "readCodeFiles en directory w =
     (case read_try en directory of
        Inl e \<Rightarrow> ([], console_error (lit ''Error reading code files:'') e w)
      | Inr codeData \<Rightarrow> (codeData, w))"

section \<open>generateEmbeddings\<close>

definition embed_request :: "jsstring \<Rightarrow> request" where
  "embed_request t =
     \<lparr>req_url = lit ''http://127.0.0.1:8080/pipeline/feature-extraction/sentence-transformers/all-MiniLM-L6-v2'',
      req_method = lit ''POST'',
      req_headers = [(lit ''Accept'', lit ''application/json''),
                     (lit ''Content-Type'', lit ''application/json'')],
      req_body = JObj [(lit ''inputs'', JArr [JStr t])]\<rparr>"

definition http_error_message :: "nat \<Rightarrow> jsstring" where
  "http_error_message status = lit ''HTTP error! status: '' @ show_nat status"

text \<open>\<open>Array.isArray(data) ? data[0] : data.embeddings[0]\<close>.\<close>

definition first_embedding :: "jsval \<Rightarrow> js_error + jsval" where
  "first_embedding data =
     (if is_array data then jidx data 0
      else bindE (jprop data (lit ''embeddings'')) (\<lambda>es. jidx es 0))"

text \<open>
  The loop over \<open>texts\<close>, one request after the other; the array \<open>embeddings\<close> built so far
  is the accumulator. Each request is recorded before its answer is looked at.
\<close>

fun embed_loop :: "env \<Rightarrow> jsstring list \<Rightarrow> jsval list \<Rightarrow> world \<Rightarrow> (js_error + jsval list) \<times> world" where
  "embed_loop en [] acc w = (Inr acc, w)"
| "embed_loop en (t # ts) acc w =
     (let w1 = w\<lparr>requests := requests w @ [embed_request t]\<rparr> in
      case fetch en (requests w) (embed_request t) of
        FetchRejected m \<Rightarrow> (Inl (External m), w1)
      | Response ok status body \<Rightarrow>
          if \<not> ok then (Inl (Error (http_error_message status)), w1)
          else (case body of
                  None \<Rightarrow> (Inl SyntaxError, w1)
                | Some data \<Rightarrow>
                    (case first_embedding data of
                       Inl e \<Rightarrow> (Inl e, w1)
                     | Inr embedding \<Rightarrow> embed_loop en ts (acc @ [embedding]) w1)))"

text \<open>The \<open>catch\<close> block logs the error and throws it again.\<close>

definition generateEmbeddings :: "env \<Rightarrow> jsstring list \<Rightarrow> world \<Rightarrow> (js_error + jsval list) \<times> world" where
  "generateEmbeddings en texts w =
     (case embed_loop en texts [] w of
        (Inl e, w') \<Rightarrow> (Inl e, console_error (lit ''Error generating embeddings:'') e w')
      | (Inr es, w') \<Rightarrow> (Inr es, w'))"

section \<open>storeCodeInVectorDB\<close>

text \<open>
  The callback of \<open>embeddings.map\<close>:
  \<open>Array.isArray(e[0]) && Array.isArray(e[0][0]) ? e[0][0] : Array.isArray(e[0]) ? e[0] : e\<close>,
  every read in the order the expression makes it.
\<close>

definition flatten_stored :: "jsval \<Rightarrow> js_error + jsval" where
  "flatten_stored e =
     bindE (jidx e 0) (\<lambda>a.
     bindE (if is_array a
            then bindE (jidx e 0) (\<lambda>b. bindE (jidx b 0) (\<lambda>c. Inr (is_array c)))
            else Inr False) (\<lambda>nested2.
     if nested2 then bindE (jidx e 0) (\<lambda>b. jidx b 0)
     else bindE (jidx e 0) (\<lambda>b. if is_array b then jidx e 0 else Inr e)))"

definition mismatch_message :: "nat \<Rightarrow> nat \<Rightarrow> nat \<Rightarrow> nat \<Rightarrow> jsstring" where
  "mismatch_message i e t m =
     lit ''Mismatched lengths: ids='' @ show_nat i @ lit '', embeddings='' @ show_nat e
       @ lit '', texts='' @ show_nat t @ lit '', metadatas='' @ show_nat m"

definition make_ids :: "line_record list \<Rightarrow> jsstring list" where
  "make_ids codeData = map (\<lambda>index. lit ''line_'' @ show_nat index) [0..<length codeData]"

definition make_metadatas :: "line_record list \<Rightarrow> jsval list" where
  "make_metadatas codeData =
     map (\<lambda>d. JObj [(lit ''file'', JStr (file d)),
                    (lit ''lineNumber'', JNum (real (lineNumber d)))]) codeData"

text \<open>The condition of the length check.\<close>

definition lengths_differ :: "jsstring list \<Rightarrow> jsval list \<Rightarrow> jsstring list \<Rightarrow> jsval list \<Rightarrow> bool" where
  "lengths_differ is es ts ms =
     (length is \<noteq> length es \<or> length is \<noteq> length ts \<or> length is \<noteq> length ms)"

text \<open>
  From the log of the lengths to the end of the \<open>try\<close> block: the length check, the
  call of \<open>collection.add\<close> and the final message.
\<close>

definition store_submit ::
    "env \<Rightarrow> collection \<Rightarrow> nat \<Rightarrow> jsstring list \<Rightarrow> jsval list \<Rightarrow> jsval list \<Rightarrow> jsstring list
       \<Rightarrow> jsval list \<Rightarrow> world \<Rightarrow> (js_error + unit) \<times> world" where
  "store_submit en coll n is es flatEmbeddings ts ms w =
     (let w1 = console_log [OText (lit ''ids:''), ONat (length is),
                            OText (lit ''embeddings:''), ONat (length es),
                            OText (lit ''texts:''), ONat (length ts),
                            OText (lit ''metadatas:''), ONat (length ms)] w in
      if lengths_differ is es ts ms
      then (Inl (Error (mismatch_message (length is) (length es) (length ts) (length ms))), w1)
      else
        (let args = \<lparr>ids = is, embeddings = flatEmbeddings, metadatas = ms, documents = ts\<rparr>;
             w2 = w1\<lparr>add_calls := add_calls w1 @ [(coll, args)]\<rparr> in
         case collection_add en (add_calls w1) coll args of
           Some m \<Rightarrow> (Inl (External m), w2)
         | None \<Rightarrow>
             (Inr (), console_log
                [OText (lit ''Stored '' @ show_nat n @ lit '' lines in vector database.'')] w2)))"

text \<open>From the flattening of the embeddings to the end of the \<open>try\<close> block.\<close>

definition store_finish ::
    "env \<Rightarrow> collection \<Rightarrow> line_record list \<Rightarrow> jsstring list \<Rightarrow> jsval list \<Rightarrow> world
       \<Rightarrow> (js_error + unit) \<times> world" where
  "store_finish en coll codeData ts es w =
     (case mapE flatten_stored es of
        Inl e \<Rightarrow> (Inl e, w)
      | Inr flatEmbeddings \<Rightarrow>
          (let w1 = console_log [OText (lit ''Stored embedding length:''),
                                 OVal (opt_length (arr_at flatEmbeddings 0))] w;
               w2 = console_log [OText (lit ''Stored embedding example:''),
                                 OVal (arr_at flatEmbeddings 0)] w1
           in store_submit en coll (length codeData) (make_ids codeData) es flatEmbeddings ts
                (make_metadatas codeData) w2))"

text \<open>The body of the \<open>try\<close> block.\<close>

definition store_try :: "env \<Rightarrow> world \<Rightarrow> (js_error + unit) \<times> world" where
  "store_try en w =
     (case getOrCreateCollection en COLLECTION_NAME of
        Inl m \<Rightarrow> (Inl (External m), w)
      | Inr coll \<Rightarrow>
          (case readCodeFiles en CODE_DIR w of
             (codeData, w1) \<Rightarrow>
               if length codeData = 0
               then (Inr (), console_log [OText (lit ''No code files found to index.'')] w1)
               else
                 (let ts = map content codeData;
                      w2 = console_log [OText (lit '' Texts:  '' @ join_comma ts)] w1 in
                  case generateEmbeddings en ts w2 of
                    (Inl e, w3) \<Rightarrow> (Inl e, w3)
                  | (Inr es, w3) \<Rightarrow> store_finish en coll codeData ts es w3)))"

text \<open>The \<open>catch\<close> block: the error is logged and the function returns.\<close>

definition store_catch :: "(js_error + unit) \<times> world \<Rightarrow> (js_error + unit) \<times> world" where
  "store_catch r =
     (case r of
        (Inl e, w) \<Rightarrow> (Inr (), console_error (lit ''Error storing code in vector DB:'') e w)
      | (Inr u, w) \<Rightarrow> (Inr u, w))"

definition storeCodeInVectorDB :: "env \<Rightarrow> world \<Rightarrow> (js_error + unit) \<times> world" where
  "storeCodeInVectorDB en w = store_catch (store_try en w)"

section \<open>searchCode\<close>

text \<open>
  The element of \<open>flatQueryEmbedding\<close>, with \<open>q\<close> the array \<open>queryEmbeddingArr\<close>:
  \<open>Array.isArray(q[0][0]) && Array.isArray(q[0][0][0]) ? q[0][0][0]
     : Array.isArray(q[0][0]) ? q[0][0] : q[0]\<close>,
  every read in the order the expression makes it.
\<close>

definition flatten_query :: "jsval list \<Rightarrow> js_error + jsval" where
  "flatten_query q =
     bindE (jidx (arr_at q 0) 0) (\<lambda>a.
     bindE (if is_array a
            then bindE (jidx (arr_at q 0) 0) (\<lambda>b. bindE (jidx b 0) (\<lambda>c. Inr (is_array c)))
            else Inr False) (\<lambda>nested2.
     if nested2 then bindE (jidx (arr_at q 0) 0) (\<lambda>b. jidx b 0)
     else bindE (jidx (arr_at q 0) 0) (\<lambda>b.
            if is_array b then jidx (arr_at q 0) 0 else Inr (arr_at q 0))))"

record match =
  match_file :: jsval
  match_lineNumber :: jsval
  match_content :: jsval
  match_distance :: jsval

text \<open>The callback of \<open>results.metadatas[0].map\<close>, fields read in the order written.\<close>

definition make_match :: "jsval \<Rightarrow> nat \<times> jsval \<Rightarrow> js_error + match" where
  "make_match results im =
     (case im of (index, metadata) \<Rightarrow>
        bindE (jprop metadata (lit ''file'')) (\<lambda>f.
        bindE (jprop metadata (lit ''lineNumber'')) (\<lambda>n.
        bindE (jprop results (lit ''documents'')) (\<lambda>ds.
        bindE (jidx ds 0) (\<lambda>d0.
        bindE (jidx d0 index) (\<lambda>c.
        bindE (jprop results (lit ''distances'')) (\<lambda>xs.
        bindE (jidx xs 0) (\<lambda>x0.
        bindE (jidx x0 index) (\<lambda>x.
        Inr \<lparr>match_file = f, match_lineNumber = n, match_content = c,
             match_distance = x\<rparr>)))))))))"

text \<open>\<open>results.metadatas[0].map(...)\<close>: only an array has \<open>map\<close>.\<close>

definition format_matches :: "jsval \<Rightarrow> js_error + match list" where
  "format_matches results =
     bindE (jprop results (lit ''metadatas'')) (\<lambda>ms.
     bindE (jidx ms 0) (\<lambda>m0.
     case m0 of
       JArr metas \<Rightarrow> mapE (make_match results) (enumerate 0 metas)
     | _ \<Rightarrow> Inl TypeError))"

text \<open>The body of the \<open>try\<close> block. \<open>nResults\<close> is \<open>None\<close> when the caller leaves it out.\<close>

definition search_try :: "env \<Rightarrow> jsstring \<Rightarrow> nat option \<Rightarrow> world \<Rightarrow> (js_error + match list) \<times> world" where
  "search_try en query nResults w =
     (let k = (case nResults of None \<Rightarrow> MAX_RESULTS | Some n \<Rightarrow> n) in
      case generateEmbeddings en [query] w of
        (Inl e, w1) \<Rightarrow> (Inl e, w1)
      | (Inr queryEmbeddingArr, w1) \<Rightarrow>
          (case flatten_query queryEmbeddingArr of
             Inl e \<Rightarrow> (Inl e, w1)
           | Inr flat \<Rightarrow>
               (let flatQueryEmbedding = [flat];
                    w2 = console_log [OText (lit ''Query embedding length:''),
                                      OVal (opt_length (arr_at flatQueryEmbedding 0))] w1;
                    w3 = console_log [OText (lit ''Query embedding example:''),
                                      OVal (arr_at flatQueryEmbedding 0)] w2 in
                case getCollection en (add_calls w3) COLLECTION_NAME of
                  Inl m \<Rightarrow> (Inl (External m), w3)
                | Inr coll \<Rightarrow>
                    (case collection_query en (add_calls w3) coll flatQueryEmbedding k of
                       Inl m \<Rightarrow> (Inl (External m), w3)
                     | Inr results \<Rightarrow> (format_matches results, w3)))))"

text \<open>The \<open>catch\<close> block: the error is logged and an empty array returned.\<close>

definition search_catch :: "(js_error + match list) \<times> world \<Rightarrow> (js_error + match list) \<times> world" where
  "search_catch r =
     (case r of
        (Inl e, w) \<Rightarrow> (Inr [], console_error (lit ''Error searching code:'') e w)
      | (Inr ms, w) \<Rightarrow> (Inr ms, w))"

definition searchCode :: "env \<Rightarrow> jsstring \<Rightarrow> nat option \<Rightarrow> world \<Rightarrow> (js_error + match list) \<times> world" where
  "searchCode en query nResults w = search_catch (search_try en query nResults w)"

section \<open>main\<close>

text \<open>
  Whether \<open>`${v}`\<close> throws. A primitive always has a string. An object is converted by its
  \<open>toString\<close> and then its \<open>valueOf\<close>: with an own property \<open>toString\<close>, which in data is
  never a function, neither gives a primitive and the conversion throws a \<open>TypeError\<close>;
  without one the inherited method answers. An array joins the strings of its elements,
  \<open>undefined\<close> and \<open>null\<close> counting as empty.
\<close>

fun string_throws :: "jsval \<Rightarrow> bool" where
  "string_throws (JArr xs) = list_ex string_throws xs"
| "string_throws (JObj kvs) = (map_of kvs (lit ''toString'') \<noteq> None)"
| "string_throws v = False"

text \<open>
  The callback of \<open>matches.forEach\<close>. The template literal converts \<open>match.file\<close>,
  \<open>match.lineNumber\<close> and \<open>match.content\<close> to strings, then calls \<open>toFixed\<close>, which exists
  on a number only; every failure is a \<open>TypeError\<close>, thrown before anything is printed for
  the match. The printed line is kept as its four parts, the distance being the number
  given to \<open>toFixed(3)\<close>.
\<close>

fun print_matches :: "match list \<Rightarrow> world \<Rightarrow> (js_error + unit) \<times> world" where
  "print_matches [] w = (Inr (), w)"
| "print_matches (m # ms) w =
     (if string_throws (match_file m) \<or> string_throws (match_lineNumber m)
         \<or> string_throws (match_content m)
      then (Inl TypeError, w)
      else
        (case match_distance m of
           JNum d \<Rightarrow>
             print_matches ms
               (console_log [OResult (match_file m) (match_lineNumber m) (match_content m) d] w)
         | _ \<Rightarrow> (Inl TypeError, w)))"

definition demo_query :: jsstring where
  "demo_query = lit ''function factorial''"

definition main :: "env \<Rightarrow> world \<Rightarrow> (js_error + unit) \<times> world" where
  "main en w =
     (let w1 = console_log [OText (lit ''Indexing code files...'')] w in
      case storeCodeInVectorDB en w1 of
        (Inl e, w2) \<Rightarrow> (Inl e, w2)
      | (Inr u, w2) \<Rightarrow>
          (let w3 = console_log
                 [OText ([10] @ lit ''Searching for: '' @ [34] @ demo_query @ [34])] w2 in
           case searchCode en demo_query None w3 of
             (Inl e, w4) \<Rightarrow> (Inl e, w4)
           | (Inr matches, w4) \<Rightarrow>
               if length matches = 0
               then (Inr (), console_log [OText (lit ''No matches found.'')] w4)
               else print_matches matches
                      (console_log [OText ([10] @ lit ''Search Results:'')] w4)))"




section \<open>Notions used in the statements\<close>

text \<open>
  The answer to request number \<open>i\<close> (from 0) of a call \<open>generateEmbeddings(texts)\<close> started in
  the world \<open>w\<close>, the requests for the texts before it having been sent.
\<close>

definition nth_response :: "env \<Rightarrow> world \<Rightarrow> jsstring list \<Rightarrow> nat \<Rightarrow> fetch_result" where
  "nth_response en w texts i =
     fetch en (requests w @ map embed_request (take i texts)) (embed_request (texts ! i))"

text \<open>
  A body from which an embedding can be taken: an array, or a value whose \<open>embeddings\<close>
  property is neither \<open>undefined\<close> nor \<open>null\<close>.
\<close>

definition usable_body :: "jsval \<Rightarrow> bool" where
  "usable_body data =
     (is_array data \<or>
      (case jprop data (lit ''embeddings'') of
         Inr es \<Rightarrow> es \<noteq> JUndef \<and> es \<noteq> JNull
       | Inl e \<Rightarrow> False))"

text \<open>A response with a success status and a JSON body from which an embedding can be taken.\<close>

definition delivers :: "fetch_result \<Rightarrow> bool" where
  "delivers r =
     (case r of
        Response ok status (Some data) \<Rightarrow> ok \<and> usable_body data
      | _ \<Rightarrow> False)"

text \<open>The embedding the program takes from such a response.\<close>

definition delivered :: "fetch_result \<Rightarrow> jsval" where
  "delivered r =
     (case r of
        Response ok status (Some data) \<Rightarrow>
          (case first_embedding data of Inr v \<Rightarrow> v | Inl e \<Rightarrow> JUndef)
      | _ \<Rightarrow> JUndef)"

text \<open>
  A directory entry that \<open>readCodeFiles\<close> gets through: it is skipped, or it can be read
  and has no more records than one call takes arguments.
\<close>

definition fits :: "env \<Rightarrow> jsstring \<Rightarrow> jsstring \<Rightarrow> bool" where
  "fits en d g =
     (if accepted g then
        (case readFile en (path_join en d g) of
           Inl m \<Rightarrow> False
         | Inr t \<Rightarrow> length (file_records g t) \<le> max_arguments en)
      else True)"

section \<open>Concrete worlds and services\<close>

text \<open>
  A run to evaluate the definitions on: a directory with one accepted file of three lines,
  the second one blank; an endpoint that answers every request with a batch of one vector;
  a store that accepts everything and answers a query with two ranked lines.
\<close>

definition world0 :: world where
  "world0 = \<lparr>requests = [], add_calls = [], stdout = [], stderr = []\<rparr>"

definition demo_text :: jsstring where
  "demo_text = lit ''x'' @ [10, 10] @ lit '' y ''"

definition demo_codeData :: "line_record list" where
  "demo_codeData =
     [\<lparr>content = lit ''x'', file = lit ''a.js'', lineNumber = 1\<rparr>,
      \<lparr>content = lit ''y'', file = lit ''a.js'', lineNumber = 3\<rparr>]"

definition demo_vector :: jsval where
  "demo_vector = JArr [JNum 1, JNum 2]"

definition demo_metas :: "jsval list" where
  "demo_metas = [JObj [(lit ''file'', JStr (lit ''a.js'')), (lit ''lineNumber'', JNum 3)],
                 JObj [(lit ''file'', JStr (lit ''a.js'')), (lit ''lineNumber'', JNum 1)]]"

definition demo_results :: jsval where
  "demo_results =
     JObj [(lit ''metadatas'',
              JArr [JArr [JObj [(lit ''file'', JStr (lit ''a.js'')), (lit ''lineNumber'', JNum 3)],
                          JObj [(lit ''file'', JStr (lit ''a.js'')), (lit ''lineNumber'', JNum 1)]]]),
           (lit ''documents'', JArr [JArr [JStr (lit ''y''), JStr (lit ''x'')]]),
           (lit ''distances'', JArr [JArr [JNum 0.05, JNum 0.1]])]"

definition demo_env :: env where
  "demo_env =
     \<lparr>readdir = (\<lambda>d. Inr [lit ''a.js'', lit ''notes.md'']),
      path_join = (\<lambda>d f. d @ lit ''/'' @ f),
      readFile = (\<lambda>p. Inr demo_text),
      fetch = (\<lambda>hist r. Response True 200 (Some (JArr [demo_vector]))),
      getOrCreateCollection = (\<lambda>n. Inr (Collection n)),
      collection_add = (\<lambda>calls c a. None),
      getCollection = (\<lambda>calls n. Inr (Collection n)),
      collection_query = (\<lambda>calls c qs k. Inr demo_results),
      max_arguments = 125000\<rparr>"

text \<open>The same services, with an endpoint that answers the second request with status 500.\<close>

definition http_fail_env :: env where
  "http_fail_env =
     demo_env\<lparr>fetch := (\<lambda>hist r. if length hist = 1 then Response False 500 None
                                   else Response True 200 (Some (JArr [demo_vector])))\<rparr>"

text \<open>The same services, with an endpoint that answers status 200 and the body \<open>{}\<close>.\<close>

definition empty_object_env :: env where
  "empty_object_env = demo_env\<lparr>fetch := (\<lambda>hist r. Response True 200 (Some (JObj [])))\<rparr>"

text \<open>The same services, with a store that has no collection of the name.\<close>

definition no_collection_env :: env where
  "no_collection_env = demo_env\<lparr>getCollection := (\<lambda>calls n. Inl (lit ''not found''))\<rparr>"

text \<open>Sequences for the length check: 3 ids, 3 texts and 3 metadatas.\<close>

definition ids3 :: "jsstring list" where
  "ids3 = [lit ''line_0'', lit ''line_1'', lit ''line_2'']"

definition texts3 :: "jsstring list" where
  "texts3 = [lit ''x'', lit ''y'', lit ''z'']"

definition metadatas3 :: "jsval list" where
  "metadatas3 = [JObj [], JObj [], JObj []]"

text \<open>
  The same services, with a directory of two accepted files, the second of which cannot
  be read.
\<close>

definition unreadable_env :: env where
  "unreadable_env =
     demo_env\<lparr>readdir := (\<lambda>d. Inr [lit ''a.js'', lit ''b.js'']),
              readFile := (\<lambda>p. if p = CODE_DIR @ lit ''/'' @ lit ''b.js''
                                then Inl (lit ''EACCES'') else Inr demo_text)\<rparr>"

text \<open>
  The same services, with a store that answers the query with one line that was stored
  without metadata.
\<close>

definition null_metadata_results :: jsval where
  "null_metadata_results =
     JObj [(lit ''metadatas'', JArr [JArr [JNull]]),
           (lit ''documents'', JArr [JArr [JStr (lit ''x'')]]),
           (lit ''distances'', JArr [JArr [JNum 0.1]])]"

definition null_metadata_env :: env where
  "null_metadata_env =
     demo_env\<lparr>collection_query := (\<lambda>calls c qs k. Inr null_metadata_results)\<rparr>"

section \<open>Basic facts\<close>

lemma arr_at_single: "arr_at [e] 0 = e"
  by (simp add: arr_at_def)

lemma embed_loop_length:
  "embed_loop en ts acc w = (Inr es, w') \<Longrightarrow> length es = length acc + length ts"
proof (induction ts arbitrary: acc w)
  case Nil
  then show ?case by simp
next
  case (Cons t ts)
  then show ?case
    by (auto simp: Let_def split: fetch_result.splits if_splits option.splits sum.splits)
qed

lemma generateEmbeddings_length:
  "generateEmbeddings en ts w = (Inr es, w') \<Longrightarrow> length es = length ts"
  by (auto simp: generateEmbeddings_def dest: embed_loop_length split: prod.splits sum.splits)

lemma flatten_same: "flatten_query [e] = flatten_stored e"
  unfolding flatten_query_def flatten_stored_def arr_at_single by (rule refl)

lemma enumerate_nth: "enumerate 0 xs = map (\<lambda>i. (i, xs ! i)) [0..<length xs]"
  by (rule nth_equalityI) (simp_all add: nth_enumerate_eq)

lemma filter_map_comp: "filter P (map g xs) = map g (filter (\<lambda>x. P (g x)) xs)"
  by (induction xs) simp_all

lemma file_records_indices:
  "file_records f text =
     map (\<lambda>i. \<lparr>content = trim (split_nl text ! i), file = f, lineNumber = i + 1\<rparr>)
       (filter (\<lambda>i. trim (split_nl text ! i) \<noteq> []) [0..<length (split_nl text)])"
  by (simp add: file_records_def numbered_lines_def enumerate_nth filter_map_comp o_def)

lemma length_filter_nth:
  "length (filter (\<lambda>i. P (xs ! i)) [0..<length xs]) = length (filter P xs)"
proof -
  have "filter P xs = filter P (map (\<lambda>i. xs ! i) [0..<length xs])"
    by (simp add: map_nth)
  also have "\<dots> = map (\<lambda>i. xs ! i) (filter (\<lambda>i. P (xs ! i)) [0..<length xs])"
    by (simp add: filter_map_comp)
  finally show ?thesis by simp
qed

lemma read_loop_all:
  "list_all (fits en d) fs \<Longrightarrow>
   read_loop en d fs acc =
     Inr (acc @ concat (map (\<lambda>f. file_records f (projr (readFile en (path_join en d f))))
                          (filter accepted fs)))"
proof (induction fs arbitrary: acc)
  case Nil
  then show ?case by simp
next
  case (Cons f fs)
  then show ?case
    by (cases "accepted f") (auto simp: fits_def split: sum.splits)
qed

lemma read_loop_fits: "read_loop en d fs acc = Inr cd \<Longrightarrow> list_all (fits en d) fs"
proof (induction fs arbitrary: acc)
  case Nil
  then show ?case by simp
next
  case (Cons f fs)
  show ?case
  proof (cases "accepted f")
    case False
    with Cons.prems have "read_loop en d fs acc = Inr cd" by simp
    from Cons.IH [OF this] False show ?thesis by (simp add: fits_def)
  next
    case True
    with Cons.prems obtain t where t: "readFile en (path_join en d f) = Inr t"
      and le: "length (file_records f t) \<le> max_arguments en"
      and r: "read_loop en d fs (acc @ file_records f t) = Inr cd"
      by (auto split: sum.splits if_splits)
    from t le True have "fits en d f" by (simp add: fits_def)
    with Cons.IH [OF r] show ?thesis by simp
  qed
qed

lemma read_try_fits:
  "read_try en d = Inr cd \<Longrightarrow> \<exists>fs. readdir en d = Inr fs \<and> list_all (fits en d) fs"
  by (auto simp: read_try_def split: sum.splits dest: read_loop_fits)

lemma lengths_differ_iff:
  "lengths_differ is es ts ms \<longleftrightarrow>
     \<not> (length is = length es \<and> length es = length ts \<and> length ts = length ms)"
  by (auto simp: lengths_differ_def)

lemma http_not_mismatch: "http_error_message s \<noteq> mismatch_message a b c d"
proof
  assume "http_error_message s = mismatch_message a b c d"
  then have "hd (http_error_message s) = hd (mismatch_message a b c d)" by simp
  then show False
    by (simp add: http_error_message_def mismatch_message_def lit_def)
qed

lemma jidx_error: "jidx v i = Inl e \<Longrightarrow> e = TypeError"
  by (cases v) auto

lemma jprop_error: "jprop v k = Inl e \<Longrightarrow> e = TypeError"
  by (cases v) auto

lemma first_embedding_error: "first_embedding data = Inl e \<Longrightarrow> e = TypeError"
  by (auto simp: first_embedding_def bindE_def split: if_splits sum.splits
      dest: jidx_error jprop_error)

lemma flatten_stored_error: "flatten_stored v = Inl e \<Longrightarrow> e = TypeError"
  by (auto simp: flatten_stored_def bindE_def split: if_splits sum.splits dest: jidx_error)

lemma mapE_error: "(\<And>x e. f x = Inl e \<Longrightarrow> e = TypeError) \<Longrightarrow> mapE f xs = Inl e \<Longrightarrow> e = TypeError"
  by (induction xs arbitrary: e) (auto simp: bindE_def split: sum.splits)

lemma embed_loop_error:
  "embed_loop en ts acc w = (Inl e, w') \<Longrightarrow> e \<noteq> Error (mismatch_message a b c d)"
proof (induction ts arbitrary: acc w)
  case Nil
  then show ?case by simp
next
  case (Cons t ts)
  then show ?case
    by (auto simp: Let_def http_not_mismatch
        split: fetch_result.splits if_splits option.splits sum.splits
        dest: first_embedding_error)
qed

lemma generateEmbeddings_error:
  "generateEmbeddings en ts w = (Inl e, w') \<Longrightarrow> e \<noteq> Error (mismatch_message a b c d)"
  by (auto simp: generateEmbeddings_def split: prod.splits sum.splits dest: embed_loop_error)

lemma lengths_agree:
  "length es = length codeData \<Longrightarrow>
   \<not> lengths_differ (make_ids codeData) es (map content codeData) (make_metadatas codeData)"
  by (simp add: lengths_differ_def make_ids_def make_metadatas_def)

lemma store_submit_error:
  "\<not> lengths_differ is es ts ms \<Longrightarrow> store_submit en coll n is es flat ts ms w = (Inl e, w') \<Longrightarrow>
   \<exists>m. e = External m"
  by (auto simp: store_submit_def Let_def split: option.splits)

lemma store_finish_error:
  assumes "length es = length codeData"
    and "store_finish en coll codeData (map content codeData) es w = (Inl e, w')"
  shows "e \<noteq> Error (mismatch_message a b c d)"
proof (cases "mapE flatten_stored es")
  case (Inl x)
  then have "x = TypeError" by (rule mapE_error [rotated]) (rule flatten_stored_error)
  with Inl assms(2) show ?thesis by (simp add: store_finish_def)
next
  case (Inr flat)
  with assms(2) obtain w2 where
    "store_submit en coll (length codeData) (make_ids codeData) es flat (map content codeData)
        (make_metadatas codeData) w2 = (Inl e, w')"
    by (simp add: store_finish_def Let_def)
  from store_submit_error [OF lengths_agree [OF assms(1)] this] show ?thesis by auto
qed

lemma store_try_error:
  assumes "store_try en w = (Inl e, w')"
  shows "e \<noteq> Error (mismatch_message a b c d)"
proof (cases "getOrCreateCollection en COLLECTION_NAME")
  case (Inl m)
  with assms show ?thesis by (auto simp: store_try_def)
next
  case (Inr coll)
  obtain codeData w1 where r: "readCodeFiles en CODE_DIR w = (codeData, w1)"
    by (cases "readCodeFiles en CODE_DIR w")
  show ?thesis
  proof (cases "length codeData = 0")
    case True
    with assms Inr r show ?thesis by (simp add: store_try_def)
  next
    case False
    define w2 where "w2 = console_log [OText (lit '' Texts:  '' @ join_comma (map content codeData))] w1"
    obtain g w3 where g: "generateEmbeddings en (map content codeData) w2 = (g, w3)"
      by (cases "generateEmbeddings en (map content codeData) w2")
    show ?thesis
    proof (cases g)
      case (Inl x)
      with assms Inr r False g have "x = e"
        by (simp add: store_try_def Let_def w2_def)
      with g Inl show ?thesis by (auto dest: generateEmbeddings_error)
    next
      case (Inr es)
      with g have len: "length es = length codeData"
        by (auto dest: generateEmbeddings_length)
      from assms \<open>getOrCreateCollection en COLLECTION_NAME = Inr coll\<close> r False g Inr
      have "store_finish en coll codeData (map content codeData) es w3 = (Inl e, w')"
        by (simp add: store_try_def Let_def w2_def)
      from store_finish_error [OF len this] show ?thesis .
    qed
  qed
qed

lemma store_catch_Inr: "fst (store_catch r) = Inr ()"
  by (cases r) (auto simp: store_catch_def split: sum.splits)

lemma search_catch_Inr: "\<exists>ms. fst (search_catch r) = Inr ms"
  by (cases r) (auto simp: search_catch_def split: sum.splits)

lemma embed_loop_single:
  "requests (snd (embed_loop en [t] acc w)) = requests w @ [embed_request t]"
  by (simp add: Let_def split: fetch_result.splits option.splits sum.splits)

lemma generateEmbeddings_single:
  "requests (snd (generateEmbeddings en [t] w)) = requests w @ [embed_request t]"
  using embed_loop_single [of en t "[]" w]
  by (cases "embed_loop en [t] [] w")
     (auto simp: generateEmbeddings_def console_error_def split: sum.splits)

lemma search_try_requests:
  "requests (snd (search_try en q n w)) = requests w @ [embed_request q]"
  using generateEmbeddings_single [of en q w]
  by (cases "generateEmbeddings en [q] w")
     (auto simp: search_try_def Let_def console_log_def split: sum.splits)

lemma searchCode_requests:
  "requests (snd (searchCode en q n w)) = requests w @ [embed_request q]"
  using search_try_requests [of en q n w]
  by (cases "search_try en q n w")
     (auto simp: searchCode_def search_catch_def console_error_def split: sum.splits)

lemma print_matches_requests: "requests (snd (print_matches ms w)) = requests w"
  by (induction ms arbitrary: w) (auto simp: console_log_def split: jsval.splits)

lemma requests_console_log: "requests (console_log items w) = requests w"
  by (simp add: console_log_def)

lemma main_requests:
  "requests (snd (main en w)) =
     requests (snd (storeCodeInVectorDB en (console_log [OText (lit ''Indexing code files...'')] w)))
       @ [embed_request demo_query]"
proof -
  define w1 where "w1 = console_log [OText (lit ''Indexing code files...'')] w"
  obtain r w2 where s: "storeCodeInVectorDB en w1 = (r, w2)" by (cases "storeCodeInVectorDB en w1")
  with store_catch_Inr [of "store_try en w1"] have r: "r = Inr ()"
    by (simp add: storeCodeInVectorDB_def)
  define w3 where "w3 = console_log [OText ([10] @ lit ''Searching for: '' @ [34] @ demo_query @ [34])] w2"
  obtain m w4 where c: "searchCode en demo_query None w3 = (m, w4)"
    by (cases "searchCode en demo_query None w3")
  from searchCode_requests [of en demo_query None w3] c
  have q: "requests w4 = requests w2 @ [embed_request demo_query]"
    by (simp add: w3_def requests_console_log)
  from search_catch_Inr [of "search_try en demo_query None w3"] c
  obtain ms where m: "m = Inr ms" by (auto simp: searchCode_def)
  have "main en w =
      (if length ms = 0 then (Inr (), console_log [OText (lit ''No matches found.'')] w4)
       else print_matches ms (console_log [OText ([10] @ lit ''Search Results:'')] w4))"
    unfolding main_def Let_def w1_def [symmetric] s r prod.case sum.case w3_def [symmetric] c m
    by (rule refl)
  then show ?thesis
    using s q by (simp add: print_matches_requests requests_console_log w1_def)
qed



lemma jidx_defined: "v \<noteq> JUndef \<Longrightarrow> v \<noteq> JNull \<Longrightarrow> \<exists>x. jidx v i = Inr x"
  by (cases v) simp_all

lemma jprop_defined: "v \<noteq> JUndef \<Longrightarrow> v \<noteq> JNull \<Longrightarrow> \<exists>x. jprop v k = Inr x"
  by (cases v) simp_all

lemma usable_first_embedding:
  assumes "usable_body data"
  shows "\<exists>v. first_embedding data = Inr v"
proof (cases "is_array data")
  case True
  then show ?thesis by (cases data) (simp_all add: first_embedding_def)
next
  case False
  with assms obtain es where "jprop data (lit ''embeddings'') = Inr es"
    and "es \<noteq> JUndef" and "es \<noteq> JNull"
    by (auto simp: usable_body_def split: sum.splits)
  with False jidx_defined [of es 0] show ?thesis
    by (auto simp: first_embedding_def bindE_def)
qed

lemma delivers_cases:
  assumes "delivers r"
  obtains status data where "r = Response True status (Some data)"
    and "first_embedding data = Inr (delivered r)"
proof -
  from assms obtain status data where r: "r = Response True status (Some data)" and u: "usable_body data"
    by (auto simp: delivers_def split: fetch_result.splits option.splits)
  from usable_first_embedding [OF u] obtain v where "first_embedding data = Inr v" ..
  with r have "first_embedding data = Inr (delivered r)" by (simp add: delivered_def)
  with r show ?thesis by (rule that)
qed

lemma nth_response_0: "nth_response en w (t # ts) 0 = fetch en (requests w) (embed_request t)"
  by (simp add: nth_response_def)

lemma nth_response_Suc:
  "nth_response en w (t # ts) (Suc i) =
     nth_response en (w\<lparr>requests := requests w @ [embed_request t]\<rparr>) ts i"
  by (simp add: nth_response_def)

lemma embed_loop_all:
  "\<forall>i<length ts. delivers (nth_response en w ts i) \<Longrightarrow>
   embed_loop en ts acc w =
     (Inr (acc @ map (\<lambda>i. delivered (nth_response en w ts i)) [0..<length ts]),
      w\<lparr>requests := requests w @ map embed_request ts\<rparr>)"
proof (induction ts arbitrary: acc w)
  case Nil
  then show ?case by simp
next
  case (Cons t ts)
  define w1 where "w1 = w\<lparr>requests := requests w @ [embed_request t]\<rparr>"
  from Cons.prems have "delivers (nth_response en w (t # ts) 0)" by auto
  then obtain status data where
    r: "fetch en (requests w) (embed_request t) = Response True status (Some data)" and
    f: "first_embedding data = Inr (delivered (nth_response en w (t # ts) 0))"
    by (auto elim: delivers_cases simp: nth_response_0)
  have "\<forall>i<length ts. delivers (nth_response en w1 ts i)"
    using Cons.prems by (auto simp: w1_def nth_response_Suc [symmetric])
  from Cons.IH [OF this]
  have "embed_loop en ts (acc @ [delivered (nth_response en w (t # ts) 0)]) w1 =
     (Inr ((acc @ [delivered (nth_response en w (t # ts) 0)])
            @ map (\<lambda>i. delivered (nth_response en w1 ts i)) [0..<length ts]),
      w1\<lparr>requests := requests w1 @ map embed_request ts\<rparr>)" .
  moreover have "map (\<lambda>i. delivered (nth_response en w (t # ts) i)) [0..<length (t # ts)] =
      delivered (nth_response en w (t # ts) 0)
        # map (\<lambda>i. delivered (nth_response en w1 ts i)) [0..<length ts]"
    by (simp add: map_upt_Suc nth_response_Suc w1_def del: upt_Suc)
  moreover have "w1\<lparr>requests := requests w1 @ map embed_request ts\<rparr> =
      w\<lparr>requests := requests w @ map embed_request (t # ts)\<rparr>"
    by (simp add: w1_def)
  ultimately show ?case
    using r f by (simp add: Let_def w1_def del: upt_Suc)
qed

lemma embed_loop_http_error:
  "k < length ts \<Longrightarrow> \<forall>i<k. delivers (nth_response en w ts i) \<Longrightarrow>
   nth_response en w ts k = Response False status body \<Longrightarrow>
   embed_loop en ts acc w =
     (Inl (Error (http_error_message status)),
      w\<lparr>requests := requests w @ map embed_request (take (Suc k) ts)\<rparr>)"
proof (induction ts arbitrary: k acc w)
  case Nil
  then show ?case by simp
next
  case (Cons t ts)
  define w1 where "w1 = w\<lparr>requests := requests w @ [embed_request t]\<rparr>"
  show ?case
  proof (cases k)
    case 0
    with Cons.prems(3) show ?thesis by (simp add: nth_response_0 Let_def)
  next
    case (Suc j)
    with Cons.prems have "delivers (nth_response en w (t # ts) 0)" by auto
    then obtain st data where
      r: "fetch en (requests w) (embed_request t) = Response True st (Some data)" and
      f: "first_embedding data = Inr (delivered (nth_response en w (t # ts) 0))"
      by (auto elim: delivers_cases simp: nth_response_0)
    have 1: "j < length ts" using Cons.prems(1) Suc by simp
    have 2: "\<forall>i<j. delivers (nth_response en w1 ts i)"
      using Cons.prems(2) Suc by (auto simp: w1_def nth_response_Suc [symmetric])
    have 3: "nth_response en w1 ts j = Response False status body"
      using Cons.prems(3) Suc by (simp add: w1_def nth_response_Suc)
    from Cons.IH [OF 1 2 3]
    have "embed_loop en ts (acc @ [delivered (nth_response en w (t # ts) 0)]) w1 =
       (Inl (Error (http_error_message status)),
        w1\<lparr>requests := requests w1 @ map embed_request (take (Suc j) ts)\<rparr>)" .
    then show ?thesis
      using r f Suc by (simp add: Let_def w1_def)
  qed
qed

lemma mapE_total: "\<forall>x \<in> set xs. \<exists>y. f x = Inr y \<Longrightarrow> \<exists>ys. mapE f xs = Inr ys"
  by (induction xs) (auto simp: bindE_def)

lemma mapE_nth:
  "mapE f xs = Inr ys \<Longrightarrow> length ys = length xs \<and> (\<forall>i<length xs. f (xs ! i) = Inr (ys ! i))"
proof (induction xs arbitrary: ys)
  case Nil
  then show ?case by simp
next
  case (Cons x xs)
  from Cons.prems obtain y zs where y: "f x = Inr y" and zs: "mapE f xs = Inr zs"
    and ys: "ys = y # zs"
    by (auto simp: bindE_def split: sum.splits)
  from Cons.IH [OF zs] y ys show ?case
    by (auto simp: nth_Cons split: nat.splits)
qed

lemma make_match_defined:
  assumes "m \<noteq> JUndef" "m \<noteq> JNull"
    and "jprop results (lit ''documents'') = Inr ds" "jidx ds 0 = Inr d0"
    and "d0 \<noteq> JUndef" "d0 \<noteq> JNull"
    and "jprop results (lit ''distances'') = Inr xs" "jidx xs 0 = Inr x0"
    and "x0 \<noteq> JUndef" "x0 \<noteq> JNull"
  shows "\<exists>mt. make_match results (i, m) = Inr mt \<and>
     jprop m (lit ''file'') = Inr (match_file mt) \<and>
     jprop m (lit ''lineNumber'') = Inr (match_lineNumber mt) \<and>
     jidx d0 i = Inr (match_content mt) \<and>
     jidx x0 i = Inr (match_distance mt)"
proof -
  from jprop_defined [OF assms(1,2)] obtain f where f: "jprop m (lit ''file'') = Inr f" by blast
  from jprop_defined [OF assms(1,2)] obtain n where n: "jprop m (lit ''lineNumber'') = Inr n" by blast
  from jidx_defined [OF assms(5,6)] obtain c where c: "jidx d0 i = Inr c" by blast
  from jidx_defined [OF assms(9,10)] obtain x where x: "jidx x0 i = Inr x" by blast
  show ?thesis
    by (simp add: make_match_def bindE_def f n c x assms)
qed

lemma embed_loop_add_calls: "add_calls (snd (embed_loop en ts acc w)) = add_calls w"
proof (induction ts arbitrary: acc w)
  case Nil
  then show ?case by simp
next
  case (Cons t ts)
  then show ?case
    by (simp add: Let_def split: fetch_result.splits option.splits sum.splits)
qed

lemma generateEmbeddings_add_calls:
  "add_calls (snd (generateEmbeddings en ts w)) = add_calls w"
  using embed_loop_add_calls [of en ts "[]" w]
  by (cases "embed_loop en ts [] w")
     (auto simp: generateEmbeddings_def console_error_def split: sum.splits)

lemma search_try_getCollection:
  assumes "getCollection en (add_calls w) COLLECTION_NAME = Inl m"
  shows "\<exists>e. fst (search_try en q n w) = Inl e"
proof -
  obtain g w1 where g: "generateEmbeddings en [q] w = (g, w1)"
    by (cases "generateEmbeddings en [q] w")
  with generateEmbeddings_add_calls [of en "[q]" w] have a: "add_calls w1 = add_calls w" by simp
  show ?thesis
    using g a assms
    by (auto simp: search_try_def Let_def console_log_def split: sum.splits)
qed

lemma stderr_console_log: "stderr (console_log items w) = stderr w"
  by (simp add: console_log_def)




lemma jprop_Inr_present: "jprop v k = Inr x \<Longrightarrow> v \<noteq> JUndef \<and> v \<noteq> JNull"
  by (cases v) simp_all

lemma jidx_Inr_present: "jidx v i = Inr x \<Longrightarrow> v \<noteq> JUndef \<and> v \<noteq> JNull"
  by (cases v) simp_all

lemma make_match_Inr:
  assumes "make_match results (i, m) = Inr mt"
  shows "m \<noteq> JUndef \<and> m \<noteq> JNull \<and>
    (\<exists>ds d0. jprop results (lit ''documents'') = Inr ds \<and> jidx ds 0 = Inr d0 \<and>
       d0 \<noteq> JUndef \<and> d0 \<noteq> JNull) \<and>
    (\<exists>xs x0. jprop results (lit ''distances'') = Inr xs \<and> jidx xs 0 = Inr x0 \<and>
       x0 \<noteq> JUndef \<and> x0 \<noteq> JNull)"
proof -
  from assms obtain f ds d0 c xs x0 x where
    "jprop m (lit ''file'') = Inr f"
    "jprop results (lit ''documents'') = Inr ds" "jidx ds 0 = Inr d0" "jidx d0 i = Inr c"
    "jprop results (lit ''distances'') = Inr xs" "jidx xs 0 = Inr x0" "jidx x0 i = Inr x"
    by (auto simp: make_match_def bindE_def split: sum.splits)
  then show ?thesis
    by (auto dest: jprop_Inr_present jidx_Inr_present)
qed

text \<open>What an answer of the store satisfies when \<open>format_matches\<close> reads it without a throw.\<close>

lemma format_matches_Inr:
  assumes "format_matches results = Inr matches"
  shows "\<exists>ms metas. jprop results (lit ''metadatas'') = Inr ms \<and> jidx ms 0 = Inr (JArr metas) \<and>
    (\<forall>m \<in> set metas. m \<noteq> JUndef \<and> m \<noteq> JNull) \<and>
    (metas \<noteq> [] \<longrightarrow>
       (\<exists>ds d0. jprop results (lit ''documents'') = Inr ds \<and> jidx ds 0 = Inr d0 \<and>
          d0 \<noteq> JUndef \<and> d0 \<noteq> JNull) \<and>
       (\<exists>xs x0. jprop results (lit ''distances'') = Inr xs \<and> jidx xs 0 = Inr x0 \<and>
          x0 \<noteq> JUndef \<and> x0 \<noteq> JNull))"
proof -
  from assms obtain ms metas where ms: "jprop results (lit ''metadatas'') = Inr ms"
    and m0: "jidx ms 0 = Inr (JArr metas)"
    and mp: "mapE (make_match results) (enumerate 0 metas) = Inr matches"
    by (auto simp: format_matches_def bindE_def split: sum.splits jsval.splits)
  from mapE_nth [OF mp]
  have each: "\<forall>i<length metas. make_match results (i, metas ! i) = Inr (matches ! i)"
    by (auto simp: nth_enumerate_eq)
  have "m \<noteq> JUndef \<and> m \<noteq> JNull" if "m \<in> set metas" for m
  proof -
    from that obtain i where "i < length metas" "metas ! i = m" by (auto simp: in_set_conv_nth)
    with each have "make_match results (i, m) = Inr (matches ! i)" by auto
    from make_match_Inr [OF this] show ?thesis by simp
  qed
  moreover have "(\<exists>ds d0. jprop results (lit ''documents'') = Inr ds \<and> jidx ds 0 = Inr d0 \<and>
          d0 \<noteq> JUndef \<and> d0 \<noteq> JNull) \<and>
       (\<exists>xs x0. jprop results (lit ''distances'') = Inr xs \<and> jidx xs 0 = Inr x0 \<and>
          x0 \<noteq> JUndef \<and> x0 \<noteq> JNull)" if "metas \<noteq> []"
  proof -
    from that have "0 < length metas" by simp
    with each have "make_match results (0, metas ! 0) = Inr (matches ! 0)" by auto
    from make_match_Inr [OF this] show ?thesis by simp
  qed
  ultimately show ?thesis using ms m0 by blast
qed

section \<open>The concrete run, evaluated\<close>

lemma demo_env_sel:
  "readdir demo_env d = Inr [lit ''a.js'', lit ''notes.md'']"
  "readFile demo_env p = Inr demo_text"
  "fetch demo_env h r = Response True 200 (Some (JArr [demo_vector]))"
  "getOrCreateCollection demo_env n = Inr (Collection n)"
  "collection_add demo_env calls c a = None"
  "getCollection demo_env calls n = Inr (Collection n)"
  "collection_query demo_env calls c qs k = Inr demo_results"
  "max_arguments demo_env = 125000"
  "path_join demo_env d f = d @ lit ''/'' @ f"
  by (simp_all add: demo_env_def)

lemma http_fail_env_sel:
  "readdir http_fail_env = readdir demo_env"
  "readFile http_fail_env = readFile demo_env"
  "fetch http_fail_env h r =
     (if length h = 1 then Response False 500 None
      else Response True 200 (Some (JArr [demo_vector])))"
  "getOrCreateCollection http_fail_env = getOrCreateCollection demo_env"
  "collection_add http_fail_env = collection_add demo_env"
  "getCollection http_fail_env = getCollection demo_env"
  "collection_query http_fail_env = collection_query demo_env"
  "max_arguments http_fail_env = max_arguments demo_env"
  by (simp_all add: http_fail_env_def)

lemma empty_object_env_sel:
  "fetch empty_object_env h r = Response True 200 (Some (JObj []))"
  by (simp add: empty_object_env_def)

lemma no_collection_env_sel:
  "fetch no_collection_env = fetch demo_env"
  "getCollection no_collection_env calls n = Inl (lit ''not found'')"
  by (simp_all add: no_collection_env_def)

lemma demo_file_records: "file_records (lit ''a.js'') demo_text = demo_codeData"
proof -
  have sp: "split_nl demo_text = [lit ''x'', [], lit '' y '']"
    by (simp add: lit_def demo_text_def)
  have tr: "trim (lit ''x'') = lit ''x''" "trim [] = []" "trim (lit '' y '') = lit ''y''"
    by (simp_all add: trim_def lit_def is_ws_def)
  have ne: "lit ''x'' \<noteq> []" "lit ''y'' \<noteq> []" by (simp_all add: lit_def)
  show ?thesis
    by (simp add: file_records_def numbered_lines_def sp tr ne demo_codeData_def)
qed

lemma demo_read:
  assumes "readdir en = readdir demo_env" and "readFile en = readFile demo_env"
    and "max_arguments en = max_arguments demo_env"
  shows "readCodeFiles en CODE_DIR w = (demo_codeData, w)"
proof -
  have acc: "accepted (lit ''a.js'')" "\<not> accepted (lit ''notes.md'')"
    by (simp_all add: accepted_def endsWith_def lit_def)
  have "read_try en CODE_DIR = Inr demo_codeData"
    by (simp add: read_try_def assms demo_env_sel acc demo_file_records)
       (simp add: demo_codeData_def)
  then show ?thesis by (simp add: readCodeFiles_def)
qed

lemma demo_first_embedding: "first_embedding (JArr [demo_vector]) = Inr demo_vector"
  by (simp add: first_embedding_def)

lemma demo_embed_query:
  "generateEmbeddings demo_env [s] w =
     (Inr [demo_vector], w\<lparr>requests := requests w @ [embed_request s]\<rparr>)"
  by (simp add: generateEmbeddings_def demo_env_sel demo_first_embedding)

lemma demo_codeData_sel:
  "map content demo_codeData = [lit ''x'', lit ''y'']" "length demo_codeData = 2"
  "demo_codeData \<noteq> []"
  by (simp_all add: demo_codeData_def)

lemma demo_flatten: "flatten_stored demo_vector = Inr demo_vector"
  "flatten_query [demo_vector] = Inr demo_vector"
  by (simp_all add: flatten_stored_def flatten_query_def arr_at_def demo_vector_def bindE_def)

lemma show_nat_digits:
  "show_nat 0 = lit ''0''" "show_nat 1 = lit ''1''" "show_nat 2 = lit ''2''"
  "show_nat 3 = lit ''3''" "show_nat 500 = lit ''500''"
  by (simp_all add: show_nat.simps lit_def digit_def)

lemma demo_delivers:
  "delivers (nth_response demo_env w ts i)"
  "delivered (nth_response demo_env w ts i) = demo_vector"
  by (simp_all add: delivers_def delivered_def nth_response_def demo_env_sel usable_body_def
      demo_first_embedding)

lemma http_fail_responses:
  "nth_response http_fail_env world0 (s # ts) 0 = Response True 200 (Some (JArr [demo_vector]))"
  "nth_response http_fail_env world0 (s # t # ts) 1 = Response False 500 None"
  by (simp_all add: nth_response_def http_fail_env_sel world0_def)

lemma no_collection_search:
  "search_try no_collection_env demo_query None world0 =
     (Inl (External (lit ''not found'')),
      world0\<lparr>requests := [embed_request demo_query],
             stdout := [[OText (lit ''Query embedding length:''), OVal (JNum 2)],
                        [OText (lit ''Query embedding example:''), OVal demo_vector]]\<rparr>)"
proof -
  have g: "generateEmbeddings no_collection_env [demo_query] world0 =
      (Inr [demo_vector], world0\<lparr>requests := [embed_request demo_query]\<rparr>)"
    by (simp add: generateEmbeddings_def no_collection_env_sel demo_env_sel demo_first_embedding
        world0_def)
  have l: "opt_length demo_vector = JNum 2" by (simp add: demo_vector_def)
  have "search_try no_collection_env demo_query None world0 =
     (Inl (External (lit ''not found'')),
      console_log [OText (lit ''Query embedding example:''), OVal demo_vector]
        (console_log [OText (lit ''Query embedding length:''), OVal (JNum 2)]
           (world0\<lparr>requests := [embed_request demo_query]\<rparr>)))"
    by (simp add: search_try_def g demo_flatten Let_def arr_at_def l no_collection_env_sel)
  then show ?thesis
    by (simp add: console_log_def world0_def)
qed

lemma demo_results_sel:
  "jprop demo_results (lit ''metadatas'') = Inr (JArr [JArr demo_metas])"
  "jprop demo_results (lit ''documents'') = Inr (JArr [JArr [JStr (lit ''y''), JStr (lit ''x'')]])"
  "jprop demo_results (lit ''distances'') = Inr (JArr [JArr [JNum 0.05, JNum 0.1]])"
  by (simp_all add: demo_results_def demo_metas_def lit_def)

lemma demo_metas_sel:
  "length demo_metas = 2"
  "jprop (demo_metas ! 0) (lit ''file'') = Inr (JStr (lit ''a.js''))"
  "jprop (demo_metas ! 0) (lit ''lineNumber'') = Inr (JNum 3)"
  "jprop (demo_metas ! Suc 0) (lit ''file'') = Inr (JStr (lit ''a.js''))"
  "jprop (demo_metas ! Suc 0) (lit ''lineNumber'') = Inr (JNum 1)"
  "\<forall>m \<in> set demo_metas. m \<noteq> JUndef \<and> m \<noteq> JNull"
  by (simp_all add: demo_metas_def lit_def)

lemma demo_embed:
  "generateEmbeddings demo_env [s, t] w =
     (Inr [demo_vector, demo_vector],
      w\<lparr>requests := requests w @ [embed_request s, embed_request t]\<rparr>)"
  by (simp add: generateEmbeddings_def demo_env_sel demo_first_embedding)

lemma http_error_500: "http_error_message 500 = lit ''HTTP error! status: 500''"
  by (simp add: http_error_message_def show_nat_digits lit_def)

lemma http_fail_embed:
  "requests w = [] \<Longrightarrow>
   generateEmbeddings http_fail_env [s, t] w =
     (Inl (Error (lit ''HTTP error! status: 500'')),
      console_error (lit ''Error generating embeddings:'') (Error (lit ''HTTP error! status: 500''))
        (w\<lparr>requests := [embed_request s, embed_request t]\<rparr>))"
  by (simp add: generateEmbeddings_def http_fail_env_sel demo_first_embedding http_error_500)

lemma http_fail_store:
  assumes "requests w = []"
  shows "store_try http_fail_env w =
     (Inl (Error (lit ''HTTP error! status: 500'')),
      console_error (lit ''Error generating embeddings:'') (Error (lit ''HTTP error! status: 500''))
        ((console_log [OText (lit '' Texts:  '' @ join_comma [lit ''x'', lit ''y''])] w)
           \<lparr>requests := [embed_request (lit ''x''), embed_request (lit ''y'')]\<rparr>))"
proof -
  have r: "readCodeFiles http_fail_env CODE_DIR w = (demo_codeData, w)"
    by (rule demo_read) (simp_all add: http_fail_env_sel)
  have q: "requests (console_log [OText (lit '' Texts:  '' @ join_comma [lit ''x'', lit ''y''])] w) = []"
    using assms by (simp add: requests_console_log)
  show ?thesis
    unfolding store_try_def r
    by (simp add: http_fail_env_sel demo_env_sel demo_codeData_sel Let_def http_fail_embed
        requests_console_log assms)
qed

lemma lengths3: "length ids3 = 3" "length texts3 = 3" "length metadatas3 = 3"
  by (simp_all add: ids3_def texts3_def metadatas3_def)

lemma mismatch_text:
  "lit ''Mismatched lengths: ids='' @ lit ''3'' @ lit '', embeddings='' @ lit ''2''
     @ lit '', texts='' @ lit ''3'' @ lit '', metadatas='' @ lit ''3''
   = lit ''Mismatched lengths: ids=3, embeddings=2, texts=3, metadatas=3''"
  by (simp add: lit_def)



section \<open>The claims\<close>

text \<open>
  C1. The flattening of an embedding at indexing time and the flattening of the query
  embedding at query time are the same function: on the one-element array that
  \<open>generateEmbeddings\<close> returns for a query, the query-time expression gives exactly what
  the indexing-time callback gives on that element, the same vector or the same error.
\<close>

theorem flatten_query_is_flatten_stored:
  "flatten_query [e] = flatten_stored e \<and>
   (generateEmbeddings en [query] w = (Inr q, w') \<longrightarrow>
      (\<exists>v. q = [v] \<and> flatten_query q = flatten_stored v))"
proof (intro conjI impI)
  show "flatten_query [e] = flatten_stored e" by (rule flatten_same)
next
  assume "generateEmbeddings en [query] w = (Inr q, w')"
  then have "length q = 1" by (auto dest: generateEmbeddings_length)
  then obtain v where "q = [v]" by (cases q) auto
  then show "\<exists>v. q = [v] \<and> flatten_query q = flatten_stored v"
    by (simp add: flatten_same)
qed

theorem flatten_query_is_flatten_stored_witness:
  "flatten_query [JArr [demo_vector]] = flatten_stored (JArr [demo_vector]) \<and>
   generateEmbeddings demo_env [demo_query] world0 =
     (Inr [demo_vector], world0\<lparr>requests := [embed_request demo_query]\<rparr>) \<and>
   flatten_query [demo_vector] = flatten_stored demo_vector \<and>
   flatten_stored demo_vector = Inr demo_vector \<and>
   flatten_stored (JArr [demo_vector]) = Inr demo_vector \<and>
   flatten_stored (JArr [JArr [demo_vector]]) = Inr demo_vector"
proof -
  have g: "generateEmbeddings demo_env [demo_query] world0 =
     (Inr [demo_vector], world0\<lparr>requests := [embed_request demo_query]\<rparr>)"
    by (simp add: generateEmbeddings_def demo_env_def world0_def first_embedding_def
        demo_vector_def)
  have s: "flatten_stored demo_vector = Inr demo_vector"
     "flatten_stored (JArr [demo_vector]) = Inr demo_vector"
     "flatten_stored (JArr [JArr [demo_vector]]) = Inr demo_vector"
    by (simp_all add: flatten_stored_def demo_vector_def bindE_def)
  from flatten_query_is_flatten_stored [of "JArr [demo_vector]" demo_env demo_query world0
       "[demo_vector]" "world0\<lparr>requests := [embed_request demo_query]\<rparr>"] g s
  show ?thesis by auto
qed

text \<open>
  C2 (amended). The records \<open>readCodeFiles\<close> makes for a file are, in order, one for each
  piece of the newline split that is not empty once trimmed: its content is the trimmed
  piece and its line number the piece's position in the whole split, counted from 1, so
  blank lines leave gaps in the numbering. Their number is the number of such pieces.
  When the directory can be read, and every accepted file in it can be read and has no
  more records than one call takes arguments, the result of \<open>readCodeFiles\<close> is these
  records, file after file.
\<close>

theorem readCodeFiles_records:
  "file_records f text =
     map (\<lambda>i. \<lparr>content = trim (split_nl text ! i), file = f, lineNumber = i + 1\<rparr>)
       (filter (\<lambda>i. trim (split_nl text ! i) \<noteq> []) [0..<length (split_nl text)]) \<and>
   length (file_records f text) = length (filter (\<lambda>l. trim l \<noteq> []) (split_nl text)) \<and>
   (readdir en d = Inr fs \<and> list_all (fits en d) fs \<longrightarrow>
    readCodeFiles en d w =
      (concat (map (\<lambda>g. file_records g (projr (readFile en (path_join en d g))))
                 (filter accepted fs)), w))"
proof (intro conjI impI)
  show "file_records f text =
     map (\<lambda>i. \<lparr>content = trim (split_nl text ! i), file = f, lineNumber = i + 1\<rparr>)
       (filter (\<lambda>i. trim (split_nl text ! i) \<noteq> []) [0..<length (split_nl text)])"
    by (rule file_records_indices)
  show "length (file_records f text) = length (filter (\<lambda>l. trim l \<noteq> []) (split_nl text))"
    by (simp add: file_records_indices length_filter_nth [where P = "\<lambda>l. trim l \<noteq> []"])
next
  assume a: "readdir en d = Inr fs \<and> list_all (fits en d) fs"
  then have "read_try en d =
      Inr (concat (map (\<lambda>g. file_records g (projr (readFile en (path_join en d g))))
                     (filter accepted fs)))"
    using read_loop_all [of en d fs "[]"] by (simp add: read_try_def)
  then show "readCodeFiles en d w =
      (concat (map (\<lambda>g. file_records g (projr (readFile en (path_join en d g))))
                 (filter accepted fs)), w)"
    by (simp add: readCodeFiles_def)
qed

theorem readCodeFiles_records_witness:
  "readdir demo_env CODE_DIR = Inr [lit ''a.js'', lit ''notes.md''] \<and>
   list_all (fits demo_env CODE_DIR) [lit ''a.js'', lit ''notes.md''] \<and>
   readCodeFiles demo_env CODE_DIR world0 =
     ([\<lparr>content = lit ''x'', file = lit ''a.js'', lineNumber = 1\<rparr>,
       \<lparr>content = lit ''y'', file = lit ''a.js'', lineNumber = 3\<rparr>], world0) \<and>
   length (file_records (lit ''a.js'') demo_text) = 2"
proof -
  have acc: "accepted (lit ''a.js'')" "\<not> accepted (lit ''notes.md'')"
    by (simp_all add: accepted_def endsWith_def lit_def)
  have sp: "split_nl demo_text = [lit ''x'', [], lit '' y '']"
    by (simp add: lit_def demo_text_def)
  have tr: "trim (lit ''x'') = lit ''x''" "trim [] = []" "trim (lit '' y '') = lit ''y''"
    by (simp_all add: trim_def lit_def is_ws_def)
  have ne: "lit ''x'' \<noteq> []" "lit ''y'' \<noteq> []" by (simp_all add: lit_def)
  have up: "[0..<3] = [0, 1, 2]" by (simp add: upt_rec)
  have len: "length (file_records (lit ''a.js'') demo_text) = 2"
    by (simp add: demo_file_records demo_codeData_sel)
  have h: "readdir demo_env CODE_DIR = Inr [lit ''a.js'', lit ''notes.md''] \<and>
    list_all (fits demo_env CODE_DIR) [lit ''a.js'', lit ''notes.md'']"
    by (simp add: fits_def acc demo_env_sel len)
  have rf: "readFile demo_env p = Inr demo_text" for p
    by (simp add: demo_env_sel)
  from readCodeFiles_records [of "lit ''a.js''" demo_text demo_env
      CODE_DIR "[lit ''a.js'', lit ''notes.md'']" world0] h
  show ?thesis
    by (simp add: acc sp tr ne up rf)
qed

text \<open>
  C2, as the claim states it, fails: the directory holds \<open>a.js\<close>, with two lines that are
  not blank, and \<open>b.js\<close>, which cannot be read. The records of \<open>a.js\<close> are made, then the
  read of \<open>b.js\<close> throws, and the \<open>catch\<close> block returns an empty array: no record for
  \<open>a.js\<close>.
\<close>

theorem readCodeFiles_unreadable_counterexample:
  "readdir unreadable_env CODE_DIR = Inr [lit ''a.js'', lit ''b.js''] \<and>
   readFile unreadable_env (path_join unreadable_env CODE_DIR (lit ''a.js'')) = Inr demo_text \<and>
   length (file_records (lit ''a.js'') demo_text) = 2 \<and>
   readCodeFiles unreadable_env CODE_DIR world0 =
     ([], world0\<lparr>stderr := [(lit ''Error reading code files:'', External (lit ''EACCES''))]\<rparr>)"
proof -
  have acc: "accepted (lit ''a.js'')" "accepted (lit ''b.js'')"
    by (simp_all add: accepted_def endsWith_def lit_def)
  have ab: "lit ''a.js'' \<noteq> lit ''b.js''" by (simp add: lit_def)
  have len: "length (file_records (lit ''a.js'') demo_text) = 2"
    by (simp add: demo_file_records demo_codeData_sel)
  have sel: "readdir unreadable_env CODE_DIR = Inr [lit ''a.js'', lit ''b.js'']"
    "readFile unreadable_env (path_join unreadable_env CODE_DIR (lit ''a.js'')) = Inr demo_text"
    "readFile unreadable_env (path_join unreadable_env CODE_DIR (lit ''b.js''))
       = Inl (lit ''EACCES'')"
    "max_arguments unreadable_env = 125000"
    by (simp_all add: unreadable_env_def demo_env_def ab)
  have "read_try unreadable_env CODE_DIR = Inl (External (lit ''EACCES''))"
    by (simp add: read_try_def sel acc len)
  then have "readCodeFiles unreadable_env CODE_DIR world0 =
     ([], world0\<lparr>stderr := [(lit ''Error reading code files:'', External (lit ''EACCES''))]\<rparr>)"
    by (simp add: readCodeFiles_def console_error_def world0_def)
  with sel len show ?thesis by simp
qed

text \<open>
  C3. Whenever the four sequences \<open>ids\<close>, \<open>embeddings\<close>, \<open>texts\<close> and \<open>metadatas\<close> are not
  all of one length, the length check throws an error whose message gives the four
  lengths, and the store's \<open>add\<close> is not called.
\<close>

theorem store_submit_mismatch:
  "\<not> (length is = length es \<and> length es = length ts \<and> length ts = length ms) \<Longrightarrow>
   store_submit en coll n is es flat ts ms w =
     (Inl (Error (lit ''Mismatched lengths: ids='' @ show_nat (length is)
                   @ lit '', embeddings='' @ show_nat (length es)
                   @ lit '', texts='' @ show_nat (length ts)
                   @ lit '', metadatas='' @ show_nat (length ms))),
      console_log [OText (lit ''ids:''), ONat (length is),
                   OText (lit ''embeddings:''), ONat (length es),
                   OText (lit ''texts:''), ONat (length ts),
                   OText (lit ''metadatas:''), ONat (length ms)] w) \<and>
   add_calls (snd (store_submit en coll n is es flat ts ms w)) = add_calls w"
  by (simp add: store_submit_def lengths_differ_iff mismatch_message_def Let_def console_log_def)

theorem store_submit_mismatch_witness:
  "\<not> (length ids3 = length [demo_vector, demo_vector] \<and>
       length [demo_vector, demo_vector] = length texts3 \<and>
       length texts3 = length metadatas3) \<and>
   store_submit demo_env (Collection COLLECTION_NAME) 3 ids3 [demo_vector, demo_vector]
       [demo_vector, demo_vector] texts3 metadatas3 world0 =
     (Inl (Error (lit ''Mismatched lengths: ids=3, embeddings=2, texts=3, metadatas=3'')),
      world0\<lparr>stdout := [[OText (lit ''ids:''), ONat 3, OText (lit ''embeddings:''), ONat 2,
                          OText (lit ''texts:''), ONat 3, OText (lit ''metadatas:''), ONat 3]]\<rparr>) \<and>
   add_calls (snd (store_submit demo_env (Collection COLLECTION_NAME) 3 ids3
       [demo_vector, demo_vector] [demo_vector, demo_vector] texts3 metadatas3 world0)) = []"
proof -
  have h: "\<not> (length ids3 = length [demo_vector, demo_vector] \<and>
       length [demo_vector, demo_vector] = length texts3 \<and>
       length texts3 = length metadatas3)"
    by (simp add: lengths3)
  have two: "show_nat (Suc (Suc 0)) = lit ''2''"
    using show_nat_digits(3) by (simp add: numeral_2_eq_2)
  from store_submit_mismatch [OF h, of demo_env "Collection COLLECTION_NAME" 3
      "[demo_vector, demo_vector]" world0] h
  show ?thesis
    unfolding lengths3 by (simp add: show_nat_digits two mismatch_text console_log_def world0_def)
qed

text \<open>
  C9. The length check of \<open>storeCodeInVectorDB\<close> never fails: when \<open>generateEmbeddings\<close>
  returns for the texts of \<open>codeData\<close>, the four sequences all have the length of
  \<open>codeData\<close>, so the condition of the check is false; and whatever the services answer,
  the \<open>try\<close> block never ends with the mismatch error.
\<close>

theorem mismatch_unreachable:
  "(generateEmbeddings en (map content codeData) w = (Inr es, w') \<longrightarrow>
      length (make_ids codeData) = length codeData \<and> length es = length codeData \<and>
      length (map content codeData) = length codeData \<and>
      length (make_metadatas codeData) = length codeData \<and>
      \<not> lengths_differ (make_ids codeData) es (map content codeData) (make_metadatas codeData)) \<and>
   fst (store_try en w0) \<noteq> Inl (Error (mismatch_message a b c d))"
proof (intro conjI impI)
  assume g: "generateEmbeddings en (map content codeData) w = (Inr es, w')"
  then show len: "length es = length codeData" by (auto dest: generateEmbeddings_length)
  then show "\<not> lengths_differ (make_ids codeData) es (map content codeData) (make_metadatas codeData)"
    by (rule lengths_agree)
  show "length (make_ids codeData) = length codeData" by (simp add: make_ids_def)
  show "length (map content codeData) = length codeData" by simp
  show "length (make_metadatas codeData) = length codeData" by (simp add: make_metadatas_def)
next
  show "fst (store_try en w0) \<noteq> Inl (Error (mismatch_message a b c d))"
    using store_try_error [of en w0 "Error (mismatch_message a b c d)" "snd (store_try en w0)" a b c d]
    by (cases "store_try en w0") auto
qed

theorem mismatch_unreachable_witness:
  "generateEmbeddings demo_env (map content demo_codeData) world0 =
     (Inr [demo_vector, demo_vector],
      world0\<lparr>requests := requests world0 @ [embed_request (lit ''x''), embed_request (lit ''y'')]\<rparr>) \<and>
   length (make_ids demo_codeData) = 2 \<and> length (make_metadatas demo_codeData) = 2 \<and>
   \<not> lengths_differ (make_ids demo_codeData) [demo_vector, demo_vector]
        (map content demo_codeData) (make_metadatas demo_codeData) \<and>
   fst (store_try demo_env world0) \<noteq> Inl (Error (mismatch_message 2 2 2 2))"
proof -
  have g: "generateEmbeddings demo_env (map content demo_codeData) world0 =
     (Inr [demo_vector, demo_vector],
      world0\<lparr>requests := requests world0 @ [embed_request (lit ''x''), embed_request (lit ''y'')]\<rparr>)"
    by (simp only: demo_codeData_sel demo_embed)
  from mismatch_unreachable [of demo_env demo_codeData world0 "[demo_vector, demo_vector]"
      "world0\<lparr>requests := requests world0 @ [embed_request (lit ''x''), embed_request (lit ''y'')]\<rparr>"
      world0 2 2 2 2] g
  show ?thesis by (simp add: demo_codeData_sel)
qed

text \<open>
  C5 (amended). When every request of \<open>generateEmbeddings(texts)\<close> is answered with a
  success status and a JSON body that is an array, or has an \<open>embeddings\<close> property that
  is neither \<open>undefined\<close> nor \<open>null\<close>, the call returns one embedding per text, the
  \<open>i\<close>-th taken from the answer to the \<open>i\<close>-th request; the requests are sent one by one
  in the order of the texts, and the body of each holds its one text in a one-element
  array.
\<close>

theorem generateEmbeddings_all_delivered:
  "\<forall>i<length texts. delivers (nth_response en w texts i) \<Longrightarrow>
   generateEmbeddings en texts w =
     (Inr (map (\<lambda>i. delivered (nth_response en w texts i)) [0..<length texts]),
      w\<lparr>requests := requests w @ map embed_request texts\<rparr>) \<and>
   length (map (\<lambda>i. delivered (nth_response en w texts i)) [0..<length texts]) = length texts \<and>
   (\<forall>t. req_body (embed_request t) = JObj [(lit ''inputs'', JArr [JStr t])])"
  using embed_loop_all [of texts en w "[]"]
  by (simp add: generateEmbeddings_def embed_request_def)

theorem generateEmbeddings_all_delivered_witness:
  "delivers (nth_response demo_env world0 [lit ''x'', lit ''y''] 0) \<and>
   delivers (nth_response demo_env world0 [lit ''x'', lit ''y''] 1) \<and>
   generateEmbeddings demo_env [lit ''x'', lit ''y''] world0 =
     (Inr [demo_vector, demo_vector],
      world0\<lparr>requests := [embed_request (lit ''x''), embed_request (lit ''y'')]\<rparr>)"
proof -
  have h: "\<forall>i<length [lit ''x'', lit ''y''].
      delivers (nth_response demo_env world0 [lit ''x'', lit ''y''] i)"
    by (simp add: demo_delivers)
  have up: "[0..<2] = [0, 1]" by (simp add: upt_rec)
  from generateEmbeddings_all_delivered [OF h] show ?thesis
    by (simp add: demo_delivers up world0_def)
qed

text \<open>
  C5, as the claim states it, fails: the endpoint answers the one request with status 200
  and the JSON body \<open>{}\<close>; reading \<open>data.embeddings[0]\<close> throws, and no sequence is
  returned.
\<close>

theorem generateEmbeddings_ok_status_counterexample:
  "fetch empty_object_env (requests world0) (embed_request (lit ''x''))
     = Response True 200 (Some (JObj [])) \<and>
   fst (generateEmbeddings empty_object_env [lit ''x''] world0) = Inl TypeError"
  by (simp add: generateEmbeddings_def empty_object_env_sel first_embedding_def bindE_def)

text \<open>
  C6. When the requests before request \<open>k\<close> have been answered well and request \<open>k\<close> is
  answered with a status that is not a success, \<open>generateEmbeddings\<close> throws the HTTP
  error to its caller after logging it: nothing is returned, and the requests sent are
  those for the first \<open>k + 1\<close> texts, each once, so no later text is processed and none
  is sent again.
\<close>

theorem http_failure_aborts:
  "k < length texts \<Longrightarrow> \<forall>i<k. delivers (nth_response en w texts i) \<Longrightarrow>
   nth_response en w texts k = Response False status body \<Longrightarrow>
   generateEmbeddings en texts w =
     (Inl (Error (http_error_message status)),
      console_error (lit ''Error generating embeddings:'') (Error (http_error_message status))
        (w\<lparr>requests := requests w @ map embed_request (take (Suc k) texts)\<rparr>))"
  using embed_loop_http_error [of k texts en w status body "[]"]
  by (simp add: generateEmbeddings_def)

theorem http_failure_aborts_witness:
  "(1::nat) < length [lit ''x'', lit ''y'', lit ''z''] \<and>
   delivers (nth_response http_fail_env world0 [lit ''x'', lit ''y'', lit ''z''] 0) \<and>
   nth_response http_fail_env world0 [lit ''x'', lit ''y'', lit ''z''] 1 = Response False 500 None \<and>
   generateEmbeddings http_fail_env [lit ''x'', lit ''y'', lit ''z''] world0 =
     (Inl (Error (lit ''HTTP error! status: 500'')),
      world0\<lparr>requests := [embed_request (lit ''x''), embed_request (lit ''y'')],
             stderr := [(lit ''Error generating embeddings:'',
                         Error (lit ''HTTP error! status: 500''))]\<rparr>)"
proof -
  have 1: "(1::nat) < length [lit ''x'', lit ''y'', lit ''z'']" by simp
  have 2: "\<forall>i<1. delivers (nth_response http_fail_env world0 [lit ''x'', lit ''y'', lit ''z''] i)"
    by (simp add: http_fail_responses delivers_def usable_body_def)
  have 3: "nth_response http_fail_env world0 [lit ''x'', lit ''y'', lit ''z''] 1 = Response False 500 None"
    by (rule http_fail_responses)
  have m: "http_error_message 500 = lit ''HTTP error! status: 500''"
    by (simp add: http_error_message_def show_nat_digits lit_def)
  have 4: "delivers (nth_response http_fail_env world0 [lit ''x'', lit ''y'', lit ''z''] 0)"
    using 2 by simp
  from http_failure_aborts [OF 1 2 3] 3 4 show ?thesis
    by (simp add: m console_error_def world0_def)
qed

text \<open>
  C7. \<open>searchCode\<close> never throws: it always returns an array; when its \<open>try\<close> block fails
  with an error, the error is logged and the array is empty; in particular this happens
  when the store has no collection of the name, and when the embedding of the query fails.
\<close>

theorem searchCode_soft_fail:
  "(\<exists>ms. fst (searchCode en q n w) = Inr ms) \<and>
   (fst (search_try en q n w) = Inl e \<longrightarrow>
      searchCode en q n w =
        (Inr [], console_error (lit ''Error searching code:'') e (snd (search_try en q n w)))) \<and>
   (getCollection en (add_calls w) COLLECTION_NAME = Inl m \<longrightarrow>
      fst (searchCode en q n w) = Inr []) \<and>
   (fst (generateEmbeddings en [q] w) = Inl e' \<longrightarrow> fst (searchCode en q n w) = Inr [])"
proof (intro conjI impI)
  show "\<exists>ms. fst (searchCode en q n w) = Inr ms"
    by (simp add: searchCode_def search_catch_Inr)
next
  assume "fst (search_try en q n w) = Inl e"
  then show "searchCode en q n w =
        (Inr [], console_error (lit ''Error searching code:'') e (snd (search_try en q n w)))"
    by (cases "search_try en q n w") (simp add: searchCode_def search_catch_def)
next
  assume "getCollection en (add_calls w) COLLECTION_NAME = Inl m"
  from search_try_getCollection [OF this, of q n]
  show "fst (searchCode en q n w) = Inr []"
    by (cases "search_try en q n w") (auto simp: searchCode_def search_catch_def)
next
  assume "fst (generateEmbeddings en [q] w) = Inl e'"
  then have "fst (search_try en q n w) = Inl e'"
    by (cases "generateEmbeddings en [q] w") (simp add: search_try_def Let_def)
  then show "fst (searchCode en q n w) = Inr []"
    by (cases "search_try en q n w") (auto simp: searchCode_def search_catch_def)
qed

theorem searchCode_soft_fail_witness:
  "getCollection no_collection_env (add_calls world0) COLLECTION_NAME = Inl (lit ''not found'') \<and>
   fst (search_try no_collection_env demo_query None world0) = Inl (External (lit ''not found'')) \<and>
   searchCode no_collection_env demo_query None world0 =
     (Inr [],
      world0\<lparr>requests := [embed_request demo_query],
             stdout := [[OText (lit ''Query embedding length:''), OVal (JNum 2)],
                        [OText (lit ''Query embedding example:''), OVal demo_vector]],
             stderr := [(lit ''Error searching code:'', External (lit ''not found''))]\<rparr>) \<and>
   fst (generateEmbeddings empty_object_env [demo_query] world0) = Inl TypeError \<and>
   fst (searchCode empty_object_env demo_query None world0) = Inr []"
proof -
  have 1: "getCollection no_collection_env (add_calls world0) COLLECTION_NAME
      = Inl (lit ''not found'')"
    by (simp add: no_collection_env_sel)
  have 2: "fst (search_try no_collection_env demo_query None world0)
      = Inl (External (lit ''not found''))"
    by (simp add: no_collection_search)
  have 3: "fst (generateEmbeddings empty_object_env [demo_query] world0) = Inl TypeError"
    by (simp add: generateEmbeddings_def empty_object_env_sel first_embedding_def bindE_def)
  from searchCode_soft_fail [of no_collection_env demo_query None world0
      "External (lit ''not found'')" "lit ''not found''"] 1 2
  have "searchCode no_collection_env demo_query None world0 =
      (Inr [], console_error (lit ''Error searching code:'') (External (lit ''not found''))
                 (snd (search_try no_collection_env demo_query None world0)))"
    by simp
  then have 4: "searchCode no_collection_env demo_query None world0 =
     (Inr [],
      world0\<lparr>requests := [embed_request demo_query],
             stdout := [[OText (lit ''Query embedding length:''), OVal (JNum 2)],
                        [OText (lit ''Query embedding example:''), OVal demo_vector]],
             stderr := [(lit ''Error searching code:'', External (lit ''not found''))]\<rparr>)"
    unfolding no_collection_search by (simp add: console_error_def world0_def)
  from searchCode_soft_fail [of empty_object_env demo_query None world0 _ _ TypeError] 3
  have 5: "fst (searchCode empty_object_env demo_query None world0) = Inr []"
    by simp
  from 1 2 3 4 5 show ?thesis by simp
qed

text \<open>
  C8 (amended). When the query reaches the store and the store answers with a result
  whose \<open>metadatas[0]\<close> is an array with no entry \<open>undefined\<close> or \<open>null\<close> and, unless that
  array is empty, whose \<open>documents[0]\<close> and \<open>distances[0]\<close> are present, \<open>searchCode\<close>
  returns one match per element of \<open>metadatas[0]\<close>, in the same order: match \<open>i\<close> has the
  \<open>file\<close> and the \<open>lineNumber\<close> of \<open>metadatas[0][i]\<close>, the content \<open>documents[0][i]\<close> and
  the distance \<open>distances[0][i]\<close>. The order of the store is kept; nothing is sorted.
\<close>

theorem searchCode_matches:
  assumes "generateEmbeddings en [query] w = (Inr arr, w1)"
    and "flatten_query arr = Inr flat"
    and "getCollection en (add_calls w1) COLLECTION_NAME = Inr coll"
    and "collection_query en (add_calls w1) coll [flat]
           (case n of None \<Rightarrow> MAX_RESULTS | Some k \<Rightarrow> k) = Inr results"
    and "jprop results (lit ''metadatas'') = Inr ms" and "jidx ms 0 = Inr (JArr metas)"
    and "\<forall>m \<in> set metas. m \<noteq> JUndef \<and> m \<noteq> JNull"
    and "metas \<noteq> [] \<Longrightarrow>
           jprop results (lit ''documents'') = Inr ds \<and> jidx ds 0 = Inr d0 \<and>
           d0 \<noteq> JUndef \<and> d0 \<noteq> JNull"
    and "metas \<noteq> [] \<Longrightarrow>
           jprop results (lit ''distances'') = Inr xs \<and> jidx xs 0 = Inr x0 \<and>
           x0 \<noteq> JUndef \<and> x0 \<noteq> JNull"
  shows "\<exists>matches. fst (searchCode en query n w) = Inr matches \<and>
     length matches = length metas \<and>
     (\<forall>i<length metas.
        jprop (metas ! i) (lit ''file'') = Inr (match_file (matches ! i)) \<and>
        jprop (metas ! i) (lit ''lineNumber'') = Inr (match_lineNumber (matches ! i)) \<and>
        jidx d0 i = Inr (match_content (matches ! i)) \<and>
        jidx x0 i = Inr (match_distance (matches ! i)))"
proof -
  have ok: "\<exists>mt. make_match results (i, m) = Inr mt \<and>
     jprop m (lit ''file'') = Inr (match_file mt) \<and>
     jprop m (lit ''lineNumber'') = Inr (match_lineNumber mt) \<and>
     jidx d0 i = Inr (match_content mt) \<and>
     jidx x0 i = Inr (match_distance mt)" if "m \<in> set metas" for i m
  proof -
    from that have ne: "metas \<noteq> []" by auto
    from that assms(7) have "m \<noteq> JUndef" "m \<noteq> JNull" by auto
    with assms(8) [OF ne] assms(9) [OF ne] show ?thesis
      by (intro make_match_defined) auto
  qed
  have "\<forall>p \<in> set (enumerate 0 metas). \<exists>y. make_match results p = Inr y"
  proof
    fix p assume "p \<in> set (enumerate 0 metas)"
    then have "snd p \<in> set metas"
      using nth_mem [of "fst p" metas] by (auto simp: in_set_enumerate_eq)
    from ok [OF this, of "fst p"] show "\<exists>y. make_match results p = Inr y" by auto
  qed
  from mapE_total [OF this] obtain matches where
    m: "mapE (make_match results) (enumerate 0 metas) = Inr matches" ..
  from mapE_nth [OF m] have len: "length matches = length metas"
    and each: "\<forall>i<length metas. make_match results (i, metas ! i) = Inr (matches ! i)"
    by (auto simp: nth_enumerate_eq)
  have f: "format_matches results = Inr matches"
    by (simp add: format_matches_def bindE_def assms(5,6) m)
  have "search_try en query n w = (Inr matches, snd (search_try en query n w))"
    by (simp add: search_try_def Let_def assms(1-4) arr_at_def console_log_def f)
  then have "fst (searchCode en query n w) = Inr matches"
    by (cases "search_try en query n w") (simp add: searchCode_def search_catch_def)
  moreover have "jprop (metas ! i) (lit ''file'') = Inr (match_file (matches ! i)) \<and>
        jprop (metas ! i) (lit ''lineNumber'') = Inr (match_lineNumber (matches ! i)) \<and>
        jidx d0 i = Inr (match_content (matches ! i)) \<and>
        jidx x0 i = Inr (match_distance (matches ! i))" if "i < length metas" for i
  proof -
    from that have "metas ! i \<in> set metas" by simp
    from ok [OF this, of i] each that show ?thesis by auto
  qed
  ultimately show ?thesis using len by blast
qed

theorem searchCode_matches_witness:
  "\<exists>matches. fst (searchCode demo_env demo_query None world0) = Inr matches \<and>
     length matches = 2 \<and>
     match_file (matches ! 0) = JStr (lit ''a.js'') \<and> match_lineNumber (matches ! 0) = JNum 3 \<and>
     match_content (matches ! 0) = JStr (lit ''y'') \<and> match_distance (matches ! 0) = JNum 0.05 \<and>
     match_file (matches ! 1) = JStr (lit ''a.js'') \<and> match_lineNumber (matches ! 1) = JNum 1 \<and>
     match_content (matches ! 1) = JStr (lit ''x'') \<and> match_distance (matches ! 1) = JNum 0.1"
proof -
  have 1: "generateEmbeddings demo_env [demo_query] world0 =
      (Inr [demo_vector], world0\<lparr>requests := requests world0 @ [embed_request demo_query]\<rparr>)"
    by (rule demo_embed_query)
  have 2: "flatten_query [demo_vector] = Inr demo_vector" by (rule demo_flatten)
  have 3: "getCollection demo_env
      (add_calls (world0\<lparr>requests := requests world0 @ [embed_request demo_query]\<rparr>))
      COLLECTION_NAME = Inr (Collection COLLECTION_NAME)"
    by (simp add: demo_env_sel)
  have 4: "collection_query demo_env
      (add_calls (world0\<lparr>requests := requests world0 @ [embed_request demo_query]\<rparr>))
      (Collection COLLECTION_NAME) [demo_vector]
      (case None of None \<Rightarrow> MAX_RESULTS | Some k \<Rightarrow> k) = Inr demo_results"
    by (simp add: demo_env_sel)
  have 5: "jidx (JArr [JArr demo_metas]) 0 = Inr (JArr demo_metas)" by simp
  have 6: "jidx (JArr [JArr [JStr (lit ''y''), JStr (lit ''x'')]]) 0
      = Inr (JArr [JStr (lit ''y''), JStr (lit ''x'')])" by simp
  have 7: "jidx (JArr [JArr [JNum 0.05, JNum 0.1]]) 0 = Inr (JArr [JNum 0.05, JNum 0.1])" by simp
  have 8: "JArr [JStr (lit ''y''), JStr (lit ''x'')] \<noteq> JUndef \<and>
           JArr [JStr (lit ''y''), JStr (lit ''x'')] \<noteq> JNull" by simp
  have 9: "JArr [JNum 0.05, JNum 0.1] \<noteq> JUndef \<and> JArr [JNum 0.05, JNum 0.1] \<noteq> JNull" by simp
  have d: "jprop demo_results (lit ''documents'')
        = Inr (JArr [JArr [JStr (lit ''y''), JStr (lit ''x'')]]) \<and>
      jidx (JArr [JArr [JStr (lit ''y''), JStr (lit ''x'')]]) 0
        = Inr (JArr [JStr (lit ''y''), JStr (lit ''x'')]) \<and>
      JArr [JStr (lit ''y''), JStr (lit ''x'')] \<noteq> JUndef \<and>
      JArr [JStr (lit ''y''), JStr (lit ''x'')] \<noteq> JNull"
    using demo_results_sel(2) 6 8 by simp
  have x: "jprop demo_results (lit ''distances'') = Inr (JArr [JArr [JNum 0.05, JNum 0.1]]) \<and>
      jidx (JArr [JArr [JNum 0.05, JNum 0.1]]) 0 = Inr (JArr [JNum 0.05, JNum 0.1]) \<and>
      JArr [JNum 0.05, JNum 0.1] \<noteq> JUndef \<and> JArr [JNum 0.05, JNum 0.1] \<noteq> JNull"
    using demo_results_sel(3) 7 9 by simp
  from searchCode_matches [OF 1 2 3 4 demo_results_sel(1) 5 demo_metas_sel(6) d x]
  obtain matches where m: "fst (searchCode demo_env demo_query None world0) = Inr matches"
    "length matches = length demo_metas"
    and each: "\<forall>i<length demo_metas.
        jprop (demo_metas ! i) (lit ''file'') = Inr (match_file (matches ! i)) \<and>
        jprop (demo_metas ! i) (lit ''lineNumber'') = Inr (match_lineNumber (matches ! i)) \<and>
        jidx (JArr [JStr (lit ''y''), JStr (lit ''x'')]) i = Inr (match_content (matches ! i)) \<and>
        jidx (JArr [JNum 0.05, JNum 0.1]) i = Inr (match_distance (matches ! i))"
    by blast
  from each [rule_format, of 0] each [rule_format, of "Suc 0"] m show ?thesis
    by (simp add: demo_metas_sel)
qed

text \<open>
  C8, as the claim states it, fails: the store answers the query with one line, stored
  without metadata, so that \<open>metadatas[0]\<close> is \<open>[null]\<close>. Reading \<open>metadata.file\<close> throws,
  and \<open>searchCode\<close> returns no match for the one element.
\<close>

theorem searchCode_null_metadata_counterexample:
  "collection_query null_metadata_env [] (Collection COLLECTION_NAME) [demo_vector] MAX_RESULTS
     = Inr null_metadata_results \<and>
   jprop null_metadata_results (lit ''metadatas'') = Inr (JArr [JArr [JNull]]) \<and>
   searchCode null_metadata_env demo_query None world0 =
     (Inr [],
      world0\<lparr>requests := [embed_request demo_query],
             stdout := [[OText (lit ''Query embedding length:''), OVal (JNum 2)],
                        [OText (lit ''Query embedding example:''), OVal demo_vector]],
             stderr := [(lit ''Error searching code:'', TypeError)]\<rparr>)"
proof -
  have sel: "fetch null_metadata_env = fetch demo_env"
    "getCollection null_metadata_env = getCollection demo_env"
    "collection_query null_metadata_env calls c qs k = Inr null_metadata_results" for calls c qs k
    by (simp_all add: null_metadata_env_def)
  have g: "generateEmbeddings null_metadata_env [demo_query] world0 =
      (Inr [demo_vector], world0\<lparr>requests := [embed_request demo_query]\<rparr>)"
    by (simp add: generateEmbeddings_def sel demo_env_sel demo_first_embedding world0_def)
  have l: "opt_length demo_vector = JNum 2" by (simp add: demo_vector_def)
  have m: "jprop null_metadata_results (lit ''metadatas'') = Inr (JArr [JArr [JNull]])"
    by (simp add: null_metadata_results_def)
  have f: "format_matches null_metadata_results = Inl TypeError"
    by (simp add: format_matches_def m bindE_def make_match_def)
  have "search_try null_metadata_env demo_query None world0 =
     (Inl TypeError,
      console_log [OText (lit ''Query embedding example:''), OVal demo_vector]
        (console_log [OText (lit ''Query embedding length:''), OVal (JNum 2)]
           (world0\<lparr>requests := [embed_request demo_query]\<rparr>)))"
    by (simp add: search_try_def g demo_flatten Let_def arr_at_def l sel demo_env_sel f)
  then have "searchCode null_metadata_env demo_query None world0 =
     (Inr [],
      world0\<lparr>requests := [embed_request demo_query],
             stdout := [[OText (lit ''Query embedding length:''), OVal (JNum 2)],
                        [OText (lit ''Query embedding example:''), OVal demo_vector]],
             stderr := [(lit ''Error searching code:'', TypeError)]\<rparr>)"
    by (simp add: searchCode_def search_catch_def console_error_def console_log_def world0_def)
  with sel(3) m show ?thesis by simp
qed

text \<open>
  C10. \<open>storeCodeInVectorDB\<close> never throws: it always returns normally, and an error of
  its \<open>try\<close> block, whatever it is, is only logged. So \<open>main\<close> always goes on to the
  demonstration query: after the requests of the indexing, the request for the embedding
  of the query is sent.
\<close>

theorem storeCodeInVectorDB_never_throws:
  "fst (storeCodeInVectorDB en w) = Inr () \<and>
   snd (storeCodeInVectorDB en w) =
     (case fst (store_try en w) of
        Inl e \<Rightarrow> console_error (lit ''Error storing code in vector DB:'') e (snd (store_try en w))
      | Inr u \<Rightarrow> snd (store_try en w)) \<and>
   requests (snd (main en w)) =
     requests (snd (storeCodeInVectorDB en
                      (console_log [OText (lit ''Indexing code files...'')] w)))
       @ [embed_request demo_query]"
proof (intro conjI)
  show "fst (storeCodeInVectorDB en w) = Inr ()"
    by (simp add: storeCodeInVectorDB_def store_catch_Inr)
  show "snd (storeCodeInVectorDB en w) =
     (case fst (store_try en w) of
        Inl e \<Rightarrow> console_error (lit ''Error storing code in vector DB:'') e (snd (store_try en w))
      | Inr u \<Rightarrow> snd (store_try en w))"
    by (cases "store_try en w") (auto simp: storeCodeInVectorDB_def store_catch_def split: sum.splits)
  show "requests (snd (main en w)) =
     requests (snd (storeCodeInVectorDB en
                      (console_log [OText (lit ''Indexing code files...'')] w)))
       @ [embed_request demo_query]"
    by (rule main_requests)
qed

theorem storeCodeInVectorDB_never_throws_witness:
  "fst (store_try http_fail_env world0) = Inl (Error (lit ''HTTP error! status: 500'')) \<and>
   fst (storeCodeInVectorDB http_fail_env world0) = Inr () \<and>
   stderr (snd (storeCodeInVectorDB http_fail_env world0)) =
     [(lit ''Error generating embeddings:'', Error (lit ''HTTP error! status: 500'')),
      (lit ''Error storing code in vector DB:'', Error (lit ''HTTP error! status: 500''))] \<and>
   requests (snd (main http_fail_env world0)) =
     [embed_request (lit ''x''), embed_request (lit ''y''), embed_request demo_query]"
proof -
  have 0: "requests world0 = []" by (simp add: world0_def)
  have 1: "requests (console_log [OText (lit ''Indexing code files...'')] world0) = []"
    by (simp add: requests_console_log 0)
  note s0 = http_fail_store [OF 0]
  note s1 = http_fail_store [OF 1]
  have a: "fst (store_try http_fail_env world0) = Inl (Error (lit ''HTTP error! status: 500''))"
    by (simp add: s0)
  from storeCodeInVectorDB_never_throws [of http_fail_env world0]
  have b: "fst (storeCodeInVectorDB http_fail_env world0) = Inr ()"
    and c: "snd (storeCodeInVectorDB http_fail_env world0) =
       console_error (lit ''Error storing code in vector DB:'') (Error (lit ''HTTP error! status: 500''))
         (snd (store_try http_fail_env world0))"
    and d: "requests (snd (main http_fail_env world0)) =
     requests (snd (storeCodeInVectorDB http_fail_env
                      (console_log [OText (lit ''Indexing code files...'')] world0)))
       @ [embed_request demo_query]"
    by (simp_all add: a)
  have e: "stderr (snd (storeCodeInVectorDB http_fail_env world0)) =
     [(lit ''Error generating embeddings:'', Error (lit ''HTTP error! status: 500'')),
      (lit ''Error storing code in vector DB:'', Error (lit ''HTTP error! status: 500''))]"
    unfolding c s0 by (simp add: console_error_def console_log_def world0_def)
  have f: "requests (snd (storeCodeInVectorDB http_fail_env
                      (console_log [OText (lit ''Indexing code files...'')] world0))) =
      [embed_request (lit ''x''), embed_request (lit ''y'')]"
    unfolding storeCodeInVectorDB_def s1 by (simp add: store_catch_def console_error_def)
  from a b e d f show ?thesis by simp
qed



end
